theory Spec2Isabelle
  imports Complex_Main "HOL-Library.AList"
begin

section \<open>JavaScript values\<close>

text \<open>
  The orchestrator class \<open>LucidTalk\<close> receives plain JavaScript data from its caller: a
  configuration object, option objects, and the payloads of backend events. The values
  modelled are \<open>undefined\<close>, \<open>null\<close>, booleans, numbers, strings and plain data objects
  (own enumerable data properties only; an object is an association list read with
  \<open>map_of\<close>). \<open>NaN\<close>, functions, symbols, getters and the properties inherited from
  \<open>Object.prototype\<close> are outside the model.
\<close>

datatype jsval =
    JUndefined
  | JNull
  | JBool bool
  | JNum real
  | JStr string
  | JObj "(string \<times> jsval) list"

type_synonym jsobj = "(string \<times> jsval) list"

text \<open>JavaScript's \<open>ToBoolean\<close>, which decides every \<open>if (x)\<close>, \<open>!x\<close>, \<open>a && b\<close> and \<open>a || b\<close>.\<close>

fun truthy :: "jsval \<Rightarrow> bool" where
  "truthy JUndefined = False"
| "truthy JNull = False"
| "truthy (JBool b) = b"
| "truthy (JNum x) = (x \<noteq> 0)"
| "truthy (JStr s) = (s \<noteq> [])"
| "truthy (JObj kvs) = True"

text \<open>Reading a property \<open>o.k\<close> of a plain object: an absent key reads as \<open>undefined\<close>.\<close>

definition get :: "jsobj \<Rightarrow> string \<Rightarrow> jsval" where
  "get obj k = (case map_of obj k of None \<Rightarrow> JUndefined | Some v \<Rightarrow> v)"

text \<open>
  The object literal \<open>{ ...base, ...ext }\<close>: the properties of \<open>ext\<close> are copied in their
  order; a key of \<open>base\<close> keeps its place and takes the new value, a new key is added at
  the end. An object has each key once; in a list that repeats a key the first binding is
  the one \<open>map_of\<close> reads, and \<open>clearjunk\<close> keeps exactly those.
\<close>

definition spread :: "jsobj \<Rightarrow> jsobj \<Rightarrow> jsobj" where
  "spread base ext = fold (\<lambda>(k, v). AList.update k v) (AList.clearjunk ext) base"

text \<open>The logical-or idiom \<open>a || b\<close>.\<close>

definition js_or :: "jsval \<Rightarrow> jsval \<Rightarrow> jsval" where
  "js_or a b = (if truthy a then a else b)"

section \<open>Errors\<close>

text \<open>
  Every \<open>throw\<close> of the source is an \<open>Error\<close> with a message; the constructors carry the
  names the specification gives them:
  \<^item> \<open>ConfigurationError\<close>: \<open>Error('Privacy mode is required')\<close>;
  \<^item> \<open>AlreadyActive\<close>: \<open>Error('Transcription already in progress')\<close>;
  \<^item> \<open>AIProviderNotConfigured\<close>: \<open>Error('AI provider not configured')\<close>;
  \<^item> \<open>P2PNotEnabled\<close>: \<open>Error('P2P not enabled')\<close>;
  \<^item> \<open>NoActiveSession\<close>: \<open>Error('No session to share')\<close>;
  \<^item> \<open>TypeError\<close>: raised by the language itself (a property read on \<open>null\<close> or
    \<open>undefined\<close>, a key that cannot be turned into a string);
  \<^item> \<open>DelegationFailure m\<close>: an error with message \<open>m\<close> thrown by a backend call and
    rethrown to the caller;
  \<^item> \<open>Nullish\<close>: the value \<open>null\<close> or \<open>undefined\<close> itself, thrown by a backend call and
    passed on to the caller as it is.
\<close>

datatype error =
    ConfigurationError
  | AlreadyActive
  | AIProviderNotConfigured
  | P2PNotEnabled
  | NoActiveSession
  | TypeError
  | DelegationFailure string
  | Nullish

section \<open>Sessions, events and signals\<close>

datatype status = Active | Ended

record session =
  session_id :: string
  startTime :: int
  participants :: "jsval list"
  status :: status
  endTime :: "int option"
  driveKey :: "jsval option"
  discoveryKey :: "jsval option"

record event =
  etext :: jsval
  timestamp :: jsval
  confidence :: jsval
  isFinal :: jsval
  speaker :: jsval

datatype signal =
    Initialized
  | Transcription event
  | SessionStarted session
  | SessionStopped session
  | SessionShared jsval
  | SessionConnected jsval
  | SummaryGenerated jsval

fun signal_name :: "signal \<Rightarrow> string" where
  "signal_name Initialized = ''initialized''"
| "signal_name (Transcription e) = ''transcription''"
| "signal_name (SessionStarted s) = ''session:started''"
| "signal_name (SessionStopped s) = ''session:stopped''"
| "signal_name (SessionShared v) = ''session:shared''"
| "signal_name (SessionConnected v) = ''session:connected''"
| "signal_name (SummaryGenerated v) = ''summary:generated''"

section \<open>The backend collaborators\<close>

text \<open>
  The backend modules are not part of the repository. What one of their calls does is an
  input of the model: it returns a value (\<open>Returns\<close>), it throws or rejects with an
  \<open>Error\<close> with a message (\<open>Throws\<close>; any thrown value other than \<open>null\<close> and \<open>undefined\<close>
  behaves so, its \<open>message\<close> can be read), or it throws or rejects with \<open>null\<close> or
  \<open>undefined\<close> (\<open>ThrowsNullish\<close>; reading \<open>error.message\<close> in a \<open>catch\<close> then throws a
  \<open>TypeError\<close> of its own). The record \<open>backend\<close> fixes, for one call of an orchestrator
  method, the result of every external action that call may perform, together with the
  readings of \<open>Date.now()\<close>, of \<open>Math.random().toString(36).substr(2, 9)\<close> and of
  \<open>path.join(__dirname, '..')\<close>.
\<close>

datatype 'a outcome = Returns 'a | Throws string | ThrowsNullish

record backend =
  clock_id :: int
  clock :: int
  random_suffix :: string
  sdk_parent :: string
  require_hyperdrive :: "unit outcome"
  require_sessiondrive :: "unit outcome"
  new_hyperdrive :: "unit outcome"
  new_sessiondrive :: "unit outcome"
  hyperdrive_initialize :: "unit outcome"
  require_transcription :: "unit outcome"
  new_transcription :: "unit outcome"
  require_ai :: "unit outcome"
  new_ai :: "unit outcome"
  ai_configure :: "unit outcome"
  createSessionDrive :: "jsval outcome"
  backend_start :: "unit outcome"
  backend_on :: "unit outcome"
  stopRecording :: "unit outcome"
  getTranscript :: "jsval outcome"
  generateSummary :: "jsval outcome"
  backend_share :: "jsval outcome"
  backend_connect :: "jsval outcome"

text \<open>
  What \<open>getPromptTemplate\<close> returns: a value of its table, or a member inherited from
  \<open>Object.prototype\<close> (a built-in function or object), named by its key.
\<close>

datatype prompt = PromptText jsval | InheritedMember string

text \<open>Every external action the orchestrator attempts is recorded, in order.\<close>

datatype call =
    Require string
  | NewHyperdriveManager
  | NewSessionDriveManager jsobj
  | HyperdriveInitialize
  | NewTranscriptionManager
  | NewAIProviderManager
  | AIConfigure jsobj
  | CreateSessionDrive string
  | BackendStartTranscription jsobj
  | BackendOn
  | StopRecording
  | GetTranscript
  | GenerateSummary jsval prompt jsobj
  | ShareSession jsval
  | ConnectToSession jsval

section \<open>The orchestrator's state\<close>

text \<open>
  \<open>this.managers\<close>: a handle is an object created by \<open>new\<close>, so it is either present
  (truthy) or still \<open>null\<close>.
\<close>

record managers =
  hyperdrive :: bool
  session :: bool
  transcription :: bool
  ai :: bool
  initialized :: bool

text \<open>
  One interval timer created by \<open>startMockTranscription\<close>: its closure variable
  \<open>counter\<close>, and whether \<open>clearInterval\<close> has not been called on it yet.
\<close>

record timer =
  counter :: nat
  live :: bool

text \<open>
  The fields of the instance, the timers it has created, the number of callbacks it has
  registered on the transcription handle it holds (\<open>forwarders\<close>), its own listeners (event
  name and an identifier of the callback), and what it has done: the signals passed to
  \<open>emit\<close>, the callback invocations this caused, and the external actions attempted.
\<close>

record state =
  config :: jsobj
  isTranscribing :: bool
  currentSession :: "session option"
  managers :: managers
  timers :: "timer list"
  forwarders :: nat
  listeners :: "(string \<times> nat) list"
  emitted :: "signal list"
  delivered :: "(nat \<times> signal) list"
  calls :: "call list"

text \<open>
  \<open>this.emit(name, payload)\<close> calls every listener registered under that name. The
  listeners are the caller's callbacks; they are taken to return normally and not to call
  back into the orchestrator.
\<close>

definition emit :: "signal \<Rightarrow> state \<Rightarrow> state" where
  "emit sg st =
     st\<lparr>emitted := emitted st @ [sg],
        delivered := delivered st @
          map (\<lambda>l. (snd l, sg)) (filter (\<lambda>l. fst l = signal_name sg) (listeners st))\<rparr>"

definition on :: "string \<Rightarrow> nat \<Rightarrow> state \<Rightarrow> state" where
  "on name cb st = st\<lparr>listeners := listeners st @ [(name, cb)]\<rparr>"

definition removeAllListeners :: "state \<Rightarrow> state" where
  "removeAllListeners st = st\<lparr>listeners := []\<rparr>"

definition record_call :: "call \<Rightarrow> state \<Rightarrow> state" where
  "record_call c st = st\<lparr>calls := calls st @ [c]\<rparr>"

section \<open>Construction and validation\<close>

definition defaults :: jsobj where
  "defaults =
     [(''privacy'', JStr ''local-only''),
      (''p2p'', JBool False),
      (''ai'', JStr ''local''),
      (''apiKeys'', JObj []),
      (''storagePath'', JStr ''./sessions''),
      (''backendPath'', JNull)]"

text \<open>
  \<open>o[k]\<close> throws a \<open>TypeError\<close> when \<open>o\<close> is \<open>null\<close> or \<open>undefined\<close>, and when the key \<open>k\<close>
  cannot be converted to a string: for a plain data object that is the case when it has
  an own (hence not callable) \<open>toString\<close> property.
\<close>

fun nullish :: "jsval \<Rightarrow> bool" where
  "nullish JUndefined = True"
| "nullish JNull = True"
| "nullish v = False"

fun key_throws :: "jsval \<Rightarrow> bool" where
  "key_throws (JObj kvs) = (map_of kvs ''toString'' \<noteq> None)"
| "key_throws v = False"

text \<open>
  \<open>validateConfig\<close>. The second statement only prints a warning; what is kept of it is
  that evaluating its condition can throw: \<open>this.config.apiKeys[this.config.ai]\<close> is
  evaluated when \<open>this.config.ai\<close> is truthy.
\<close>

definition validateConfig :: "jsobj \<Rightarrow> error + unit" where
  "validateConfig cfg =
     (if \<not> truthy (get cfg ''privacy'') then Inl ConfigurationError
      else if truthy (get cfg ''ai'') \<and>
              (nullish (get cfg ''apiKeys'') \<or> key_throws (get cfg ''ai''))
        then Inl TypeError
      else Inr ())"

definition fresh :: "jsobj \<Rightarrow> state" where
  "fresh cfg =
     \<lparr>config = cfg,
      isTranscribing = False,
      currentSession = None,
      managers = \<lparr>hyperdrive = False, session = False, transcription = False,
                  ai = False, initialized = False\<rparr>,
      timers = [],
      forwarders = 0,
      listeners = [],
      emitted = [],
      delivered = [],
      calls = []\<rparr>"

text \<open>
  \<open>constructor(config = {})\<close>: \<open>None\<close> is the omitted argument. The instance exists only
  when \<open>validateConfig\<close> has not thrown.
\<close>

definition LucidTalk :: "jsobj option \<Rightarrow> error + state" where
  "LucidTalk arg =
     (let cfg = spread defaults (case arg of None \<Rightarrow> [] | Some c \<Rightarrow> c)
      in case validateConfig cfg of
           Inl e \<Rightarrow> Inl e
         | Inr u \<Rightarrow> Inr (fresh cfg))"

section \<open>Lazy initialization of the backend managers\<close>

fun is_str :: "jsval \<Rightarrow> bool" where
  "is_str (JStr s) = True"
| "is_str v = False"

definition set_managers :: "(managers \<Rightarrow> managers) \<Rightarrow> state \<Rightarrow> state" where
  "set_managers f st = st\<lparr>managers := f (managers st)\<rparr>"

text \<open>
  Each \<open>catch\<close> of \<open>initialize\<close> prints \<open>error.message\<close> and goes on. For a thrown
  \<open>Error\<close> the guarded block ends normally; for a thrown \<open>null\<close> or \<open>undefined\<close> the read
  throws a \<open>TypeError\<close> inside the handler, which leaves \<open>initialize\<close>.
\<close>

fun warn_handler :: "'a outcome \<Rightarrow> error + unit" where
  "warn_handler (Returns v) = Inr ()"
| "warn_handler (Throws m) = Inr ()"
| "warn_handler ThrowsNullish = Inl TypeError"

text \<open>
  The guarded block of \<open>initialize\<close> that loads the two P2P managers. One \<open>try\<close> covers
  the five steps; the first step that throws ends the block with the state reached so
  far. \<open>path.join\<close> throws a \<open>TypeError\<close> (an \<open>Error\<close>) when \<open>backendPath\<close> is not a string. A
  \<open>require\<close> that yields a module without the expected export shows up as a failing
  \<open>new\<close>.
\<close>

definition load_p2p :: "backend \<Rightarrow> state \<Rightarrow> (error + unit) \<times> state" where
  "load_p2p b st =
     (if \<not> is_str (get (config st) ''backendPath'') then (Inr (), st)
      else
        (let st1 = record_call (Require ''backend/HyperdriveManager'') st in
        (case require_hyperdrive b of
          Throws m \<Rightarrow> (warn_handler (require_hyperdrive b), st1)
        | ThrowsNullish \<Rightarrow> (warn_handler (require_hyperdrive b), st1)
        | Returns u \<Rightarrow>
        (let st2 = record_call (Require ''backend/SessionDriveManager'') st1 in
        (case require_sessiondrive b of
          Throws m \<Rightarrow> (warn_handler (require_sessiondrive b), st2)
        | ThrowsNullish \<Rightarrow> (warn_handler (require_sessiondrive b), st2)
        | Returns u \<Rightarrow>
        (let st3 = record_call NewHyperdriveManager st2 in
        (case new_hyperdrive b of
          Throws m \<Rightarrow> (warn_handler (new_hyperdrive b), st3)
        | ThrowsNullish \<Rightarrow> (warn_handler (new_hyperdrive b), st3)
        | Returns u \<Rightarrow>
        (let st4 = record_call
                     (NewSessionDriveManager
                        [(''storagePath'', get (config st3) ''storagePath''),
                         (''shareMode'', JBool True),
                         (''verbose'', JBool False)])
                     (set_managers (\<lambda>m. m\<lparr>hyperdrive := True\<rparr>) st3) in
        (case new_sessiondrive b of
          Throws m \<Rightarrow> (warn_handler (new_sessiondrive b), st4)
        | ThrowsNullish \<Rightarrow> (warn_handler (new_sessiondrive b), st4)
        | Returns u \<Rightarrow>
        (let st5 = record_call HyperdriveInitialize
                     (set_managers (\<lambda>m. m\<lparr>session := True\<rparr>) st4)
         in (warn_handler (hyperdrive_initialize b), st5)))))))))))"

text \<open>
  The guarded block that loads the transcription manager. The handle is a new object:
  no listener is registered on it yet.
\<close>

definition load_transcription :: "backend \<Rightarrow> state \<Rightarrow> (error + unit) \<times> state" where
  "load_transcription b st =
     (if \<not> is_str (get (config st) ''backendPath'') then (Inr (), st)
      else
        (let st1 = record_call (Require ''src/electron/TranscriptionManager'') st in
        (case require_transcription b of
          Throws m \<Rightarrow> (warn_handler (require_transcription b), st1)
        | ThrowsNullish \<Rightarrow> (warn_handler (require_transcription b), st1)
        | Returns u \<Rightarrow>
        (let st2 = record_call NewTranscriptionManager st1 in
        (case new_transcription b of
          Throws m \<Rightarrow> (warn_handler (new_transcription b), st2)
        | ThrowsNullish \<Rightarrow> (warn_handler (new_transcription b), st2)
        | Returns u \<Rightarrow>
            (Inr (), (set_managers (\<lambda>m. m\<lparr>transcription := True\<rparr>) st2)\<lparr>forwarders := 0\<rparr>))))))"

text \<open>
  The guarded block that loads the AI manager. The handle is stored before \<open>configure\<close>
  is called, so it stays when \<open>configure\<close> throws.
\<close>

definition load_ai :: "backend \<Rightarrow> state \<Rightarrow> (error + unit) \<times> state" where
  "load_ai b st =
     (if \<not> is_str (get (config st) ''backendPath'') then (Inr (), st)
      else
        (let st1 = record_call (Require ''src/electron/ai/AIProviderManager'') st in
        (case require_ai b of
          Throws m \<Rightarrow> (warn_handler (require_ai b), st1)
        | ThrowsNullish \<Rightarrow> (warn_handler (require_ai b), st1)
        | Returns u \<Rightarrow>
        (let st2 = record_call NewAIProviderManager st1 in
        (case new_ai b of
          Throws m \<Rightarrow> (warn_handler (new_ai b), st2)
        | ThrowsNullish \<Rightarrow> (warn_handler (new_ai b), st2)
        | Returns u \<Rightarrow>
        (let st3 = record_call
                     (AIConfigure [(''provider'', get (config st2) ''ai''),
                                   (''apiKeys'', get (config st2) ''apiKeys'')])
                     (set_managers (\<lambda>m. m\<lparr>ai := True\<rparr>) st2)
         in (warn_handler (ai_configure b), st3)))))))"

text \<open>
  The statements of \<open>initialize\<close> around the guarded blocks: the default of
  \<open>backendPath\<close>, the condition \<open>this.config.p2p\<close> on the P2P block, and the condition
  \<open>this.config.ai && this.config.ai !== 'local'\<close> on the AI block.
\<close>

definition with_backend_dir :: "backend \<Rightarrow> state \<Rightarrow> state" where
  "with_backend_dir b st =
     (if \<not> truthy (get (config st) ''backendPath'')
      then st\<lparr>config := AList.update ''backendPath'' (JStr (sdk_parent b)) (config st)\<rparr>
      else st)"

definition p2p_block :: "backend \<Rightarrow> state \<Rightarrow> (error + unit) \<times> state" where
  "p2p_block b st =
     (if truthy (get (config st) ''p2p'') then load_p2p b st else (Inr (), st))"

definition ai_block :: "backend \<Rightarrow> state \<Rightarrow> (error + unit) \<times> state" where
  "ai_block b st =
     (if truthy (get (config st) ''ai'') \<and> get (config st) ''ai'' \<noteq> JStr ''local''
      then load_ai b st else (Inr (), st))"

text \<open>
  \<open>initialize\<close>: the result of the call (it rejects only with the \<open>TypeError\<close> of a
  handler) and the state it leaves. A block that throws out of its handler ends the call:
  the later blocks are skipped, the guard \<open>managers.initialized\<close> is not set and
  \<open>initialized\<close> is not emitted.
\<close>

definition initialize :: "backend \<Rightarrow> state \<Rightarrow> (error + unit) \<times> state" where
  "initialize b st =
     (if initialized (managers st) then (Inr (), st)
      else
        (case p2p_block b (with_backend_dir b st) of
          (Inl e, st2) \<Rightarrow> (Inl e, st2)
        | (Inr u, st2) \<Rightarrow>
        (case load_transcription b st2 of
          (Inl e, st3) \<Rightarrow> (Inl e, st3)
        | (Inr u, st3) \<Rightarrow>
        (case ai_block b st3 of
          (Inl e, st4) \<Rightarrow> (Inl e, st4)
        | (Inr u, st4) \<Rightarrow>
            (Inr (), emit Initialized (set_managers (\<lambda>m. m\<lparr>initialized := True\<rparr>) st4))))))"

text \<open>The value of \<open>this.config.backendPath\<close> once \<open>initialize\<close> has applied its default.\<close>

definition backend_dir :: "backend \<Rightarrow> state \<Rightarrow> jsval" where
  "backend_dir b st = js_or (get (config st) ''backendPath'') (JStr (sdk_parent b))"

section \<open>Session identifiers\<close>

fun dec_nat :: "nat \<Rightarrow> string" where
  "dec_nat n =
     (if n < 10 then [''0123456789'' ! n]
      else dec_nat (n div 10) @ [''0123456789'' ! (n mod 10)])"

declare dec_nat.simps [simp del]

definition dec_int :: "int \<Rightarrow> string" where
  "dec_int i = (if i < 0 then CHR ''-'' # dec_nat (nat (- i)) else dec_nat (nat i))"

text \<open>\<open>`session_${Date.now()}_${Math.random().toString(36).substr(2, 9)}`\<close>\<close>

definition generateSessionId :: "backend \<Rightarrow> string" where
  "generateSessionId b = ''session_'' @ dec_int (clock_id b) @ ''_'' @ random_suffix b"

section \<open>The mock transcription timer\<close>

definition mockPhrases :: "string list" where
  "mockPhrases =
     [''Hello everyone, welcome to the meeting'',
      ''Let's start with the agenda for today'',
      ''First item is about the project timeline'',
      ''We need to discuss the upcoming deadline'',
      ''Any questions or concerns?'']"

text \<open>\<open>startMockTranscription\<close> creates a new interval timer whose counter starts at 0.\<close>

definition startMockTranscription :: "state \<Rightarrow> state" where
  "startMockTranscription st = st\<lparr>timers := timers st @ [\<lparr>counter = 0, live = True\<rparr>]\<rparr>"

definition mock_event :: "nat \<Rightarrow> int \<Rightarrow> event" where
  "mock_event c now =
     \<lparr>etext = JStr (mockPhrases ! (c mod length mockPhrases)),
      timestamp = JNum (real_of_int now),
      confidence = JNum 0.95,
      isFinal = JBool True,
      speaker = JStr ''Speaker 1''\<rparr>"

text \<open>
  One firing of the interval callback of timer \<open>i\<close> (every 3000 ms while the timer is
  live), at clock reading \<open>now\<close>. A timer that was never created or has been cleared does
  not fire.
\<close>

definition mock_tick :: "int \<Rightarrow> nat \<Rightarrow> state \<Rightarrow> state" where
  "mock_tick now i st =
     (if i < length (timers st) \<and> live (timers st ! i) then
        (if \<not> isTranscribing st
         then st\<lparr>timers := (timers st)[i := (timers st ! i)\<lparr>live := False\<rparr>]\<rparr>
         else
           let t = timers st ! i;
               st1 = emit (Transcription (mock_event (counter t) now)) st
           in st1\<lparr>timers := (timers st1)[i := t\<lparr>counter := counter t + 1\<rparr>]\<rparr>)
      else st)"

section \<open>Starting and stopping a transcription\<close>

text \<open>
  Reading a property of a value that is not \<open>null\<close> or \<open>undefined\<close>: a primitive has none
  of the properties read here.
\<close>

fun js_prop :: "jsval \<Rightarrow> string \<Rightarrow> jsval" where
  "js_prop (JObj kvs) k = get kvs k"
| "js_prop v k = JUndefined"

text \<open>
  The guarded block of \<open>startTranscription\<close> that creates the shared drive of session
  \<open>s\<close>. When the call throws an \<open>Error\<close>, or returns \<open>null\<close> or \<open>undefined\<close> (reading
  \<open>driveKey\<close> then throws a \<open>TypeError\<close>, an \<open>Error\<close>), the handler prints the message and the
  session record keeps no key. When the call throws \<open>null\<close> or \<open>undefined\<close>, the handler
  itself throws and \<open>startTranscription\<close> ends there.
\<close>

definition attach_drive :: "backend \<Rightarrow> session \<Rightarrow> state \<Rightarrow> (error + session) \<times> state" where
  "attach_drive b s st =
     (if truthy (get (config st) ''p2p'') \<and> session (managers st) then
        (let st1 = record_call (CreateSessionDrive (session_id s)) st in
        (case createSessionDrive b of
          Throws m \<Rightarrow> (Inr s, st1)
        | ThrowsNullish \<Rightarrow> (Inl TypeError, st1)
        | Returns info \<Rightarrow>
            (if nullish info then (Inr s, st1)
             else
               (let s1 = s\<lparr>driveKey := Some (js_prop info ''driveKey''),
                           discoveryKey := Some (js_prop info ''discoveryKey'')\<rparr>
                in (Inr s1, st1\<lparr>currentSession := Some s1\<rparr>)))))
      else (Inr s, st))"

text \<open>
  The session record created by \<open>startTranscription\<close>; \<open>endTime\<close>, \<open>driveKey\<close> and
  \<open>discoveryKey\<close> are absent from the object literal.
\<close>

definition new_session :: "backend \<Rightarrow> session" where
  "new_session b =
     \<lparr>session_id = generateSessionId b, startTime = clock b,
      participants = [], status = Active, endTime = None,
      driveKey = None, discoveryKey = None\<rparr>"

text \<open>
  The first steps of \<open>startTranscription\<close> on an idle instance: \<open>await this.initialize()\<close>,
  the new record stored in \<open>this.currentSession\<close>, and the shared drive. The result is the
  session record as it then is, or the error that ended the call, and the state.
\<close>

definition prepare_session :: "backend \<Rightarrow> state \<Rightarrow> (error + session) \<times> state" where
  "prepare_session b st =
     (case initialize b st of
        (Inl e, st1) \<Rightarrow> (Inl e, st1)
      | (Inr u, st1) \<Rightarrow>
          (let s0 = new_session b
           in attach_drive b s0 (st1\<lparr>currentSession := Some s0\<rparr>)))"

text \<open>
  \<open>startTranscription(options = {})\<close>. The result is the error thrown or the session
  record returned, and the state the call leaves behind. The \<open>catch\<close> around the backend
  start prints \<open>error.message\<close> and rethrows.
\<close>

definition startTranscription ::
  "backend \<Rightarrow> jsobj \<Rightarrow> state \<Rightarrow> (error + session) \<times> state" where
  "startTranscription b options st =
     (if isTranscribing st then (Inl AlreadyActive, st)
      else
        (case prepare_session b st of
          (Inl e, st2) \<Rightarrow> (Inl e, st2)
        | (Inr s, st2) \<Rightarrow>
           (if transcription (managers st2) then
              (let st3 = record_call
                           (BackendStartTranscription
                              (spread [(''sessionId'', JStr (session_id s)),
                                       (''outputDir'', get (config st2) ''storagePath'')]
                                      options))
                           st2 in
              (case backend_start b of
                Throws m \<Rightarrow> (Inl (DelegationFailure m), st3)
              | ThrowsNullish \<Rightarrow> (Inl TypeError, st3)
              | Returns u \<Rightarrow>
              (let st4 = record_call BackendOn st3 in
              (case backend_on b of
                Throws m \<Rightarrow> (Inl (DelegationFailure m), st4)
              | ThrowsNullish \<Rightarrow> (Inl TypeError, st4)
              | Returns u \<Rightarrow>
                  (Inr s,
                   emit (SessionStarted s)
                     (st4\<lparr>forwarders := forwarders st4 + 1, isTranscribing := True\<rparr>))))))
            else
              (Inr s,
               emit (SessionStarted s)
                 (startMockTranscription (st2\<lparr>isTranscribing := True\<rparr>))))))"

text \<open>
  \<open>stopTranscription\<close>. A failing \<open>stopRecording\<close> rejects the call before any update;
  nothing catches it, so the thrown value is what the caller gets.
\<close>

definition end_session :: "backend \<Rightarrow> state \<Rightarrow> state" where
  "end_session b st =
     (let st1 = st\<lparr>isTranscribing := False\<rparr> in
      (case currentSession st1 of
        None \<Rightarrow> st1
      | Some s \<Rightarrow>
          (let s1 = s\<lparr>endTime := Some (clock b), status := Ended\<rparr>
           in emit (SessionStopped s1) (st1\<lparr>currentSession := Some s1\<rparr>))))"

definition stopTranscription :: "backend \<Rightarrow> state \<Rightarrow> (error + unit) \<times> state" where
  "stopTranscription b st =
     (if \<not> isTranscribing st then (Inr (), st)
      else if transcription (managers st) then
        (let st1 = record_call StopRecording st in
        (case stopRecording b of
          Throws m \<Rightarrow> (Inl (DelegationFailure m), st1)
        | ThrowsNullish \<Rightarrow> (Inl Nullish, st1)
        | Returns u \<Rightarrow> (Inr (), end_session b st1)))
      else (Inr (), end_session b st))"

definition getCurrentSession :: "state \<Rightarrow> session option" where
  "getCurrentSession st = currentSession st"

definition isActive :: "state \<Rightarrow> bool" where
  "isActive st = isTranscribing st"

text \<open>\<open>dispose\<close>: the listeners removed are the orchestrator's own.\<close>

definition dispose :: "backend \<Rightarrow> state \<Rightarrow> (error + unit) \<times> state" where
  "dispose b st =
     (if isTranscribing st then
        (case stopTranscription b st of
          (Inl e, st1) \<Rightarrow> (Inl e, st1)
        | (Inr u, st1) \<Rightarrow> (Inr (), removeAllListeners st1))
      else (Inr (), removeAllListeners st))"

section \<open>Forwarding backend events\<close>

text \<open>
  The callback registered on the transcription handle copies five fields of the raw
  payload. When the handle emits a raw \<open>transcription\<close> event, every registered callback
  runs once; on a payload that is \<open>null\<close> or \<open>undefined\<close> the first callback throws back
  into the handle and nothing is re-emitted.
\<close>

definition forward_event :: "jsval \<Rightarrow> event" where
  "forward_event d =
     \<lparr>etext = js_prop d ''text'',
      timestamp = js_prop d ''timestamp'',
      confidence = js_prop d ''confidence'',
      isFinal = js_prop d ''isFinal'',
      speaker = js_prop d ''speaker''\<rparr>"

definition backend_event :: "jsval \<Rightarrow> state \<Rightarrow> state" where
  "backend_event d st =
     (if nullish d then st
      else (emit (Transcription (forward_event d)) ^^ forwarders st) st)"

section \<open>Summaries and sharing\<close>

text \<open>
  \<open>getPromptTemplate\<close>: the lookup \<open>templates[template] || templates['meeting-notes']\<close>.
  The table has five own keys, all with truthy values, and inherits the members of
  \<open>Object.prototype\<close>, which are truthy too. A key that is not a string is converted to
  one, which may throw, and then names no entry.
\<close>

definition templates :: "jsobj \<Rightarrow> jsobj" where
  "templates options =
     [(''meeting-notes'',
         JStr ''Generate comprehensive meeting notes with key points and decisions.''),
      (''action-items'', JStr ''Extract action items and assignments from the meeting.''),
      (''study-notes'', JStr ''Create study notes with key concepts and definitions.''),
      (''interview'', JStr ''Summarize interview with key insights and responses.''),
      (''custom'',
         js_or (get options ''customPrompt'') (JStr ''Summarize the following transcript.''))]"

definition object_prototype_keys :: "string list" where
  "object_prototype_keys =
     [''constructor'', ''__defineGetter__'', ''__defineSetter__'', ''hasOwnProperty'',
      ''__lookupGetter__'', ''__lookupSetter__'', ''isPrototypeOf'', ''propertyIsEnumerable'',
      ''toString'', ''valueOf'', ''__proto__'', ''toLocaleString'']"

definition getPromptTemplate :: "jsval \<Rightarrow> jsobj \<Rightarrow> error + prompt" where
  "getPromptTemplate template options =
     (if key_throws template then Inl TypeError
      else
        (case template of
          JStr k \<Rightarrow>
            (case map_of (templates options) k of
              Some v \<Rightarrow> Inr (PromptText (js_or v (get (templates options) ''meeting-notes'')))
            | None \<Rightarrow>
                (if k \<in> set object_prototype_keys then Inr (InheritedMember k)
                 else Inr (PromptText (get (templates options) ''meeting-notes''))))
        | _ \<Rightarrow> Inr (PromptText (get (templates options) ''meeting-notes''))))"

text \<open>
  \<open>getTranscriptText\<close>, with the state after the backend call it may make. The \<open>catch\<close>
  of \<open>summarize\<close>, like those of \<open>shareSession\<close> and \<open>connectToSession\<close>, prints the error
  itself and rethrows it.
\<close>

definition getTranscriptText :: "backend \<Rightarrow> state \<Rightarrow> (error + jsval) \<times> state" where
  "getTranscriptText b st =
     (if transcription (managers st) then
        (case getTranscript b of
          Throws m \<Rightarrow> (Inl (DelegationFailure m), record_call GetTranscript st)
        | ThrowsNullish \<Rightarrow> (Inl Nullish, record_call GetTranscript st)
        | Returns t \<Rightarrow> (Inr t, record_call GetTranscript st))
      else (Inr (JStr ''Mock transcript text for testing''), st))"

definition summarize :: "backend \<Rightarrow> jsobj \<Rightarrow> state \<Rightarrow> (error + jsval) \<times> state" where
  "summarize b options st =
     (if \<not> ai (managers st) then (Inl AIProviderNotConfigured, st)
      else
        (let template = js_or (get options ''template'') (JStr ''meeting-notes'') in
        (case getTranscriptText b st of
          (Inl e, st1) \<Rightarrow> (Inl e, st1)
        | (Inr transcriptText, st1) \<Rightarrow>
        (case getPromptTemplate template options of
          Inl e \<Rightarrow> (Inl e, st1)
        | Inr p \<Rightarrow>
        (let st2 = record_call (GenerateSummary transcriptText p options) st1 in
        (case generateSummary b of
          Throws m \<Rightarrow> (Inl (DelegationFailure m), st2)
        | ThrowsNullish \<Rightarrow> (Inl Nullish, st2)
        | Returns summary \<Rightarrow> (Inr summary, emit (SummaryGenerated summary) st2)))))))"

definition shareSession :: "backend \<Rightarrow> jsval \<Rightarrow> state \<Rightarrow> (error + jsval) \<times> state" where
  "shareSession b sessionId st =
     (if \<not> truthy (get (config st) ''p2p'') \<or> \<not> session (managers st)
      then (Inl P2PNotEnabled, st)
      else
        (let targetSessionId =
               js_or sessionId
                 (case currentSession st of None \<Rightarrow> JUndefined | Some s \<Rightarrow> JStr (session_id s)) in
        (if \<not> truthy targetSessionId then (Inl NoActiveSession, st)
         else
           (let st1 = record_call (ShareSession targetSessionId) st in
           (case backend_share b of
             Throws m \<Rightarrow> (Inl (DelegationFailure m), st1)
           | ThrowsNullish \<Rightarrow> (Inl Nullish, st1)
           | Returns shareInfo \<Rightarrow> (Inr shareInfo, emit (SessionShared shareInfo) st1))))))"

definition connectToSession :: "backend \<Rightarrow> jsval \<Rightarrow> state \<Rightarrow> (error + jsval) \<times> state" where
  "connectToSession b key st =
     (if \<not> truthy (get (config st) ''p2p'') \<or> \<not> session (managers st)
      then (Inl P2PNotEnabled, st)
      else
        (let st1 = record_call (ConnectToSession key) st in
        (case backend_connect b of
          Throws m \<Rightarrow> (Inl (DelegationFailure m), st1)
        | ThrowsNullish \<Rightarrow> (Inl Nullish, st1)
        | Returns sessionInfo \<Rightarrow> (Inr sessionInfo, emit (SessionConnected sessionInfo) st1))))"

section \<open>Sequences of calls\<close>

text \<open>
  The orchestrator runs one method at a time, each call from its first statement to its
  return or throw (two calls overlapping at an \<open>await\<close> are not modelled); between two
  calls the timers may fire, the transcription handle may emit raw events, and the caller
  may register listeners. A history of an instance is a list of such steps.
\<close>

datatype op =
    Initialize backend
  | Start backend jsobj
  | Stop backend
  | Summarize backend jsobj
  | Share backend jsval
  | Connect backend jsval
  | Dispose backend
  | On string nat
  | Tick int nat
  | RawEvent jsval

text \<open>One step: whether the call returned normally, and the state after it.\<close>

fun exec :: "op \<Rightarrow> state \<Rightarrow> bool \<times> state" where
  "exec (Initialize b) st = (case initialize b st of (r, st1) \<Rightarrow> (\<not> isl r, st1))"
| "exec (Start b options) st =
     (case startTranscription b options st of (r, st1) \<Rightarrow> (\<not> isl r, st1))"
| "exec (Stop b) st = (case stopTranscription b st of (r, st1) \<Rightarrow> (\<not> isl r, st1))"
| "exec (Summarize b options) st =
     (case summarize b options st of (r, st1) \<Rightarrow> (\<not> isl r, st1))"
| "exec (Share b v) st = (case shareSession b v st of (r, st1) \<Rightarrow> (\<not> isl r, st1))"
| "exec (Connect b v) st = (case connectToSession b v st of (r, st1) \<Rightarrow> (\<not> isl r, st1))"
| "exec (Dispose b) st = (case dispose b st of (r, st1) \<Rightarrow> (\<not> isl r, st1))"
| "exec (On name cb) st = (True, on name cb st)"
| "exec (Tick now i) st = (True, mock_tick now i st)"
| "exec (RawEvent d) st = (True, backend_event d st)"

fun run :: "op list \<Rightarrow> state \<Rightarrow> state" where
  "run [] st = st"
| "run (x # xs) st = run xs (snd (exec x st))"

text \<open>
  The number of \<open>startTranscription\<close> calls of a history that returned normally with a
  transcription handle present.
\<close>

fun is_start :: "op \<Rightarrow> bool" where
  "is_start (Start b options) = True"
| "is_start x = False"

fun backed_starts :: "op list \<Rightarrow> state \<Rightarrow> nat" where
  "backed_starts [] st = 0"
| "backed_starts (x # xs) st =
     (if is_start x \<and> fst (exec x st) \<and> transcription (managers (snd (exec x st)))
      then 1 else 0)
     + backed_starts xs (snd (exec x st))"



section \<open>Environments and configurations\<close>

text \<open>
  \<open>standalone\<close>: the package installed on its own, none of the backend modules can be
  loaded. \<open>installed\<close>: every backend module loads and every backend call succeeds.
\<close>

definition standalone :: backend where
  "standalone =
     \<lparr>clock_id = 1700000000000, clock = 1700000000000,
      random_suffix = ''k3j9x0q1z'', sdk_parent = ''/app/node_modules'',
      require_hyperdrive = Throws ''Cannot find module'',
      require_sessiondrive = Throws ''Cannot find module'',
      new_hyperdrive = Throws ''not a constructor'',
      new_sessiondrive = Throws ''not a constructor'',
      hyperdrive_initialize = Throws ''not a function'',
      require_transcription = Throws ''Cannot find module'',
      new_transcription = Throws ''not a constructor'',
      require_ai = Throws ''Cannot find module'',
      new_ai = Throws ''not a constructor'',
      ai_configure = Throws ''not a function'',
      createSessionDrive = Throws ''not a function'',
      backend_start = Throws ''not a function'',
      backend_on = Throws ''not a function'',
      stopRecording = Throws ''not a function'',
      getTranscript = Throws ''not a function'',
      generateSummary = Throws ''not a function'',
      backend_share = Throws ''not a function'',
      backend_connect = Throws ''not a function''\<rparr>"

definition installed :: backend where
  "installed =
     \<lparr>clock_id = 1700000000000, clock = 1700000000000,
      random_suffix = ''k3j9x0q1z'', sdk_parent = ''/app'',
      require_hyperdrive = Returns (),
      require_sessiondrive = Returns (),
      new_hyperdrive = Returns (),
      new_sessiondrive = Returns (),
      hyperdrive_initialize = Returns (),
      require_transcription = Returns (),
      new_transcription = Returns (),
      require_ai = Returns (),
      new_ai = Returns (),
      ai_configure = Returns (),
      createSessionDrive =
        Returns (JObj [(''driveKey'', JStr ''d1''), (''discoveryKey'', JStr ''k1'')]),
      backend_start = Returns (),
      backend_on = Returns (),
      stopRecording = Returns (),
      getTranscript = Returns (JStr ''transcript''),
      generateSummary = Returns (JStr ''summary''),
      backend_share = Returns (JObj [(''driveKey'', JStr ''d1'')]),
      backend_connect = Returns (JObj [(''sessionId'', JStr ''s1'')])\<rparr>"

text \<open>
  \<open>p2p_config\<close>: the stored configuration of an instance created with
  \<open>{ privacy: 'hybrid', p2p: true, ai: 'openai', apiKeys: { openai: 'sk-test' } }\<close>.
  \<open>broken_drive\<close>: as \<open>installed\<close>, but the constructor of the drive manager throws.
  \<open>silent_reject\<close>: as \<open>installed\<close>, but the promise of the drive manager's \<open>initialize\<close>
  is rejected without a value (\<open>Promise.reject()\<close>).
\<close>

definition p2p_config :: jsobj where
  "p2p_config =
     [(''privacy'', JStr ''hybrid''), (''p2p'', JBool True), (''ai'', JStr ''openai''),
      (''apiKeys'', JObj [(''openai'', JStr ''sk-test'')]),
      (''storagePath'', JStr ''./sessions''), (''backendPath'', JNull)]"

definition broken_drive :: backend where
  "broken_drive = installed\<lparr>new_hyperdrive := Throws ''native addon missing''\<rparr>"

definition silent_reject :: backend where
  "silent_reject = installed\<lparr>hyperdrive_initialize := ThrowsNullish\<rparr>"

section \<open>Configuration: facts used below\<close>

lemma map_of_fold_update:
  "distinct (map fst xs) \<Longrightarrow>
     map_of (fold (\<lambda>(k, v). AList.update k v) xs al) = map_of al ++ map_of xs"
proof (induction xs arbitrary: al)
  case Nil
  show ?case by simp
next
  case (Cons x xs)
  obtain k v where x: "x = (k, v)" by (cases x)
  from Cons.prems x have d: "distinct (map fst xs)" and k: "k \<notin> fst ` set xs" by auto
  from k have n: "map_of xs k = None" by (simp add: map_of_eq_None_iff)
  have "map_of (fold (\<lambda>(k, v). AList.update k v) (x # xs) al) =
          map_of (AList.update k v al) ++ map_of xs"
    using Cons.IH [OF d, of "AList.update k v al"] x by simp
  also have "\<dots> = map_of al ++ map_of (x # xs)"
    using n x by (auto simp: update_conv' fun_eq_iff map_add_def split: option.splits)
  finally show ?case .
qed

lemma get_spread:
  "get (spread base ext) k = (case map_of ext k of None \<Rightarrow> get base k | Some v \<Rightarrow> v)"
proof -
  have "map_of (spread base ext) = map_of base ++ map_of (AList.clearjunk ext)"
    unfolding spread_def by (rule map_of_fold_update) (rule distinct_clearjunk)
  then show ?thesis
    by (simp add: get_def map_of_clearjunk map_add_def split: option.splits)
qed

lemma get_defaults_privacy: "get defaults ''privacy'' = JStr ''local-only''"
  by (simp add: get_def defaults_def)

lemma LucidTalk_Some:
  "LucidTalk (Some cfg) =
     (case validateConfig (spread defaults cfg) of
        Inl e \<Rightarrow> Inl e | Inr u \<Rightarrow> Inr (fresh (spread defaults cfg)))"
  by (simp add: LucidTalk_def Let_def)

lemma spread_empty: "spread base [] = base"
  by (simp add: spread_def)

lemma spread_example:
  "spread defaults [(''p2p'', JBool True)] =
     [(''privacy'', JStr ''local-only''), (''p2p'', JBool True),
      (''ai'', JStr ''local''), (''apiKeys'', JObj []),
      (''storagePath'', JStr ''./sessions''), (''backendPath'', JNull)]"
  by (simp add: spread_def defaults_def)

lemma spread_example2:
  "spread defaults [(''ai'', JStr ''openai''), (''storagePath'', JStr ''/tmp/s''), (''debug'', JBool True)] =
     [(''privacy'', JStr ''local-only''), (''p2p'', JBool False),
      (''ai'', JStr ''openai''), (''apiKeys'', JObj []),
      (''storagePath'', JStr ''/tmp/s''), (''backendPath'', JNull), (''debug'', JBool True)]"
  by (simp add: spread_def defaults_def)

section \<open>Construction\<close>

text \<open>
  Claim C1, as stated: constructing the orchestrator fails with a \<open>ConfigurationError\<close>
  for every configuration object that has no \<open>privacy\<close> field. It does not: the object
  \<open>{ p2p: true }\<close> has no \<open>privacy\<close> field, the default \<open>'local-only'\<close> fills it in, and
  the instance is created.
\<close>

theorem C1_counterexample:
  "map_of [(''p2p'', JBool True)] ''privacy'' = None \<and>
   LucidTalk (Some [(''p2p'', JBool True)]) =
     Inr (fresh [(''privacy'', JStr ''local-only''), (''p2p'', JBool True),
                 (''ai'', JStr ''local''), (''apiKeys'', JObj []),
                 (''storagePath'', JStr ''./sessions''), (''backendPath'', JNull)])"
  by (simp add: LucidTalk_def spread_def defaults_def validateConfig_def get_def)

text \<open>
  Claim C1, amended: constructing the orchestrator fails with a \<open>ConfigurationError\<close>
  exactly when the configuration object itself supplies a \<open>privacy\<close> field whose value is
  falsy (\<open>undefined\<close>, \<open>null\<close>, \<open>false\<close>, \<open>0\<close> or the empty string); a configuration
  without a \<open>privacy\<close> field passes the privacy check, because the default applies.
\<close>

theorem C1_privacy_required:
  "LucidTalk (Some cfg) = Inl ConfigurationError \<longleftrightarrow>
     (\<exists>v. map_of cfg ''privacy'' = Some v \<and> \<not> truthy v)"
proof (cases "map_of cfg ''privacy''")
  case None
  then have "truthy (get (spread defaults cfg) ''privacy'')"
    by (simp add: get_spread get_defaults_privacy)
  then have "LucidTalk (Some cfg) \<noteq> Inl ConfigurationError"
    by (simp add: LucidTalk_Some validateConfig_def split: sum.splits)
  with None show ?thesis by simp
next
  case (Some v)
  then have g: "get (spread defaults cfg) ''privacy'' = v"
    by (simp add: get_spread)
  show ?thesis
  proof (cases "truthy v")
    case True
    with g have "LucidTalk (Some cfg) \<noteq> Inl ConfigurationError"
      by (simp add: LucidTalk_Some validateConfig_def split: sum.splits)
    with Some True show ?thesis by simp
  next
    case False
    with g have "LucidTalk (Some cfg) = Inl ConfigurationError"
      by (simp add: LucidTalk_Some validateConfig_def)
    with Some False show ?thesis by simp
  qed
qed

theorem C1_privacy_required_witness:
  "LucidTalk (Some [(''privacy'', JStr [])]) = Inl ConfigurationError"
  using C1_privacy_required [of "[(''privacy'', JStr [])]"] by simp

text \<open>
  Claim C8: constructing the orchestrator with an omitted or an empty configuration
  object succeeds, and the stored configuration is the defaults \<open>privacy = 'local-only'\<close>,
  \<open>p2p = false\<close>, \<open>ai = 'local'\<close>, \<open>apiKeys = {}\<close>, \<open>storagePath = './sessions'\<close>,
  \<open>backendPath = null\<close>; whenever construction succeeds, every field the caller supplied
  has the caller's value and every other field its default.
\<close>

theorem C8_defaults_and_overrides:
  "LucidTalk None = Inr (fresh defaults) \<and>
   LucidTalk (Some []) = Inr (fresh defaults) \<and>
   config (fresh defaults) =
     [(''privacy'', JStr ''local-only''), (''p2p'', JBool False), (''ai'', JStr ''local''),
      (''apiKeys'', JObj []), (''storagePath'', JStr ''./sessions''), (''backendPath'', JNull)] \<and>
   (\<forall>cfg st k. LucidTalk (Some cfg) = Inr st \<longrightarrow>
      get (config st) k = (case map_of cfg k of None \<Rightarrow> get defaults k | Some v \<Rightarrow> v))"
proof -
  have v: "validateConfig defaults = Inr ()"
    by (simp add: validateConfig_def get_def defaults_def)
  have s: "spread defaults [] = defaults"
    by (rule spread_empty)
  have a: "LucidTalk None = Inr (fresh defaults)"
    by (simp add: LucidTalk_def s v)
  have b: "LucidTalk (Some []) = Inr (fresh defaults)"
    by (simp add: LucidTalk_def s v)
  have c: "config (fresh defaults) =
     [(''privacy'', JStr ''local-only''), (''p2p'', JBool False), (''ai'', JStr ''local''),
      (''apiKeys'', JObj []), (''storagePath'', JStr ''./sessions''), (''backendPath'', JNull)]"
    by (simp add: fresh_def defaults_def)
  have d: "get (config st) k = (case map_of cfg k of None \<Rightarrow> get defaults k | Some v \<Rightarrow> v)"
    if "LucidTalk (Some cfg) = Inr st" for cfg st k
  proof -
    from that have "st = fresh (spread defaults cfg)"
      by (auto simp: LucidTalk_Some split: sum.splits)
    then show ?thesis by (simp add: fresh_def get_spread)
  qed
  from a b c d show ?thesis by blast
qed

theorem C8_defaults_and_overrides_witness:
  "LucidTalk (Some [(''ai'', JStr ''openai''), (''storagePath'', JStr ''/tmp/s'')]) =
     Inr (fresh [(''privacy'', JStr ''local-only''), (''p2p'', JBool False),
                 (''ai'', JStr ''openai''), (''apiKeys'', JObj []),
                 (''storagePath'', JStr ''/tmp/s''), (''backendPath'', JNull)]) \<and>
   get [(''privacy'', JStr ''local-only''), (''p2p'', JBool False),
        (''ai'', JStr ''openai''), (''apiKeys'', JObj []),
        (''storagePath'', JStr ''/tmp/s''), (''backendPath'', JNull)] ''ai'' = JStr ''openai'' \<and>
   get [(''privacy'', JStr ''local-only''), (''p2p'', JBool False),
        (''ai'', JStr ''openai''), (''apiKeys'', JObj []),
        (''storagePath'', JStr ''/tmp/s''), (''backendPath'', JNull)] ''privacy'' = JStr ''local-only''"
proof -
  let ?cfg = "[(''ai'', JStr ''openai''), (''storagePath'', JStr ''/tmp/s'')]"
  let ?res = "[(''privacy'', JStr ''local-only''), (''p2p'', JBool False),
                 (''ai'', JStr ''openai''), (''apiKeys'', JObj []),
                 (''storagePath'', JStr ''/tmp/s''), (''backendPath'', JNull)]"
  have h: "LucidTalk (Some ?cfg) = Inr (fresh ?res)"
    by (simp add: LucidTalk_def spread_def defaults_def validateConfig_def get_def)
  from C8_defaults_and_overrides have
    "\<forall>cfg st k. LucidTalk (Some cfg) = Inr st \<longrightarrow>
      get (config st) k = (case map_of cfg k of None \<Rightarrow> get defaults k | Some v \<Rightarrow> v)"
    by blast
  with h have
    "get (config (fresh ?res)) ''ai'' = (case map_of ?cfg ''ai'' of None \<Rightarrow> get defaults ''ai'' | Some v \<Rightarrow> v)"
    "get (config (fresh ?res)) ''privacy'' = (case map_of ?cfg ''privacy'' of None \<Rightarrow> get defaults ''privacy'' | Some v \<Rightarrow> v)"
    by blast+
  with h show ?thesis by (simp add: fresh_def get_defaults_privacy)
qed

section \<open>What each step leaves unchanged\<close>

lemmas step_defs = record_call_def set_managers_def emit_def

lemma warn_handler_cases: "warn_handler x = Inr () \<or> warn_handler x = Inl TypeError"
  by (cases x) simp_all

lemma warn_handler_ok: "x \<noteq> ThrowsNullish \<Longrightarrow> warn_handler x = Inr ()"
  by (cases x) simp_all

lemma load_p2p_frame:
  "isTranscribing (snd (load_p2p b st)) = isTranscribing st"
  "currentSession (snd (load_p2p b st)) = currentSession st"
  "timers (snd (load_p2p b st)) = timers st"
  "forwarders (snd (load_p2p b st)) = forwarders st"
  "listeners (snd (load_p2p b st)) = listeners st"
  "emitted (snd (load_p2p b st)) = emitted st"
  "delivered (snd (load_p2p b st)) = delivered st"
  "config (snd (load_p2p b st)) = config st"
  "transcription (managers (snd (load_p2p b st))) = transcription (managers st)"
  "ai (managers (snd (load_p2p b st))) = ai (managers st)"
  "initialized (managers (snd (load_p2p b st))) = initialized (managers st)"
  by (simp_all add: load_p2p_def Let_def step_defs split: outcome.splits)

lemma load_transcription_frame:
  "isTranscribing (snd (load_transcription b st)) = isTranscribing st"
  "currentSession (snd (load_transcription b st)) = currentSession st"
  "timers (snd (load_transcription b st)) = timers st"
  "listeners (snd (load_transcription b st)) = listeners st"
  "emitted (snd (load_transcription b st)) = emitted st"
  "delivered (snd (load_transcription b st)) = delivered st"
  "config (snd (load_transcription b st)) = config st"
  "hyperdrive (managers (snd (load_transcription b st))) = hyperdrive (managers st)"
  "session (managers (snd (load_transcription b st))) = session (managers st)"
  "ai (managers (snd (load_transcription b st))) = ai (managers st)"
  "initialized (managers (snd (load_transcription b st))) = initialized (managers st)"
  by (simp_all add: load_transcription_def Let_def step_defs split: outcome.splits)

lemma load_transcription_forwarders:
  "forwarders st = 0 \<Longrightarrow> forwarders (snd (load_transcription b st)) = 0"
  by (simp add: load_transcription_def Let_def step_defs split: outcome.splits)

lemma load_ai_frame:
  "isTranscribing (snd (load_ai b st)) = isTranscribing st"
  "currentSession (snd (load_ai b st)) = currentSession st"
  "timers (snd (load_ai b st)) = timers st"
  "forwarders (snd (load_ai b st)) = forwarders st"
  "listeners (snd (load_ai b st)) = listeners st"
  "emitted (snd (load_ai b st)) = emitted st"
  "delivered (snd (load_ai b st)) = delivered st"
  "config (snd (load_ai b st)) = config st"
  "hyperdrive (managers (snd (load_ai b st))) = hyperdrive (managers st)"
  "session (managers (snd (load_ai b st))) = session (managers st)"
  "transcription (managers (snd (load_ai b st))) = transcription (managers st)"
  "initialized (managers (snd (load_ai b st))) = initialized (managers st)"
  by (simp_all add: load_ai_def Let_def step_defs split: outcome.splits)

lemmas load_frames = load_p2p_frame load_transcription_frame load_ai_frame

lemma load_results:
  "fst (load_p2p b st) = Inr () \<or> fst (load_p2p b st) = Inl TypeError"
  "fst (load_transcription b st) = Inr () \<or> fst (load_transcription b st) = Inl TypeError"
  "fst (load_ai b st) = Inr () \<or> fst (load_ai b st) = Inl TypeError"
  using warn_handler_cases [of "hyperdrive_initialize b"] warn_handler_cases [of "ai_configure b"]
  by (auto simp: load_p2p_def load_transcription_def load_ai_def Let_def split: outcome.splits)

lemma load_p2p_returns:
  assumes "require_hyperdrive b \<noteq> ThrowsNullish" "require_sessiondrive b \<noteq> ThrowsNullish"
    "new_hyperdrive b \<noteq> ThrowsNullish" "new_sessiondrive b \<noteq> ThrowsNullish"
    "hyperdrive_initialize b \<noteq> ThrowsNullish"
  shows "fst (load_p2p b st) = Inr ()"
  using assms
  by (auto simp: load_p2p_def Let_def warn_handler_ok split: outcome.splits)

lemma load_transcription_returns:
  assumes "require_transcription b \<noteq> ThrowsNullish" "new_transcription b \<noteq> ThrowsNullish"
  shows "fst (load_transcription b st) = Inr ()"
  using assms
  by (auto simp: load_transcription_def Let_def split: outcome.splits)

lemma load_ai_returns:
  assumes "require_ai b \<noteq> ThrowsNullish" "new_ai b \<noteq> ThrowsNullish"
    "ai_configure b \<noteq> ThrowsNullish"
  shows "fst (load_ai b st) = Inr ()"
  using assms
  by (auto simp: load_ai_def Let_def warn_handler_ok split: outcome.splits)

lemma with_backend_dir_frame:
  "isTranscribing (with_backend_dir b st) = isTranscribing st"
  "currentSession (with_backend_dir b st) = currentSession st"
  "timers (with_backend_dir b st) = timers st"
  "forwarders (with_backend_dir b st) = forwarders st"
  "listeners (with_backend_dir b st) = listeners st"
  "emitted (with_backend_dir b st) = emitted st"
  "delivered (with_backend_dir b st) = delivered st"
  "managers (with_backend_dir b st) = managers st"
  "calls (with_backend_dir b st) = calls st"
  by (simp_all add: with_backend_dir_def)

lemma get_update: "get (AList.update k v al) k' = (if k' = k then v else get al k')"
  by (simp add: get_def update_conv')

lemma with_backend_dir_config:
  "get (config (with_backend_dir b st)) ''backendPath'' = backend_dir b st"
  "k \<noteq> ''backendPath'' \<Longrightarrow> get (config (with_backend_dir b st)) k = get (config st) k"
  by (simp_all add: with_backend_dir_def backend_dir_def js_or_def get_update)

lemma p2p_block_frame:
  "isTranscribing (snd (p2p_block b st)) = isTranscribing st"
  "currentSession (snd (p2p_block b st)) = currentSession st"
  "timers (snd (p2p_block b st)) = timers st"
  "forwarders (snd (p2p_block b st)) = forwarders st"
  "listeners (snd (p2p_block b st)) = listeners st"
  "emitted (snd (p2p_block b st)) = emitted st"
  "delivered (snd (p2p_block b st)) = delivered st"
  "config (snd (p2p_block b st)) = config st"
  "transcription (managers (snd (p2p_block b st))) = transcription (managers st)"
  "ai (managers (snd (p2p_block b st))) = ai (managers st)"
  "initialized (managers (snd (p2p_block b st))) = initialized (managers st)"
  by (simp_all add: p2p_block_def load_p2p_frame)

lemma ai_block_frame:
  "isTranscribing (snd (ai_block b st)) = isTranscribing st"
  "currentSession (snd (ai_block b st)) = currentSession st"
  "timers (snd (ai_block b st)) = timers st"
  "forwarders (snd (ai_block b st)) = forwarders st"
  "listeners (snd (ai_block b st)) = listeners st"
  "emitted (snd (ai_block b st)) = emitted st"
  "delivered (snd (ai_block b st)) = delivered st"
  "config (snd (ai_block b st)) = config st"
  "hyperdrive (managers (snd (ai_block b st))) = hyperdrive (managers st)"
  "session (managers (snd (ai_block b st))) = session (managers st)"
  "transcription (managers (snd (ai_block b st))) = transcription (managers st)"
  "initialized (managers (snd (ai_block b st))) = initialized (managers st)"
  by (simp_all add: ai_block_def load_ai_frame)

lemmas block_frames = with_backend_dir_frame p2p_block_frame load_transcription_frame ai_block_frame

lemma block_results:
  "fst (p2p_block b st) = Inr () \<or> fst (p2p_block b st) = Inl TypeError"
  "fst (ai_block b st) = Inr () \<or> fst (ai_block b st) = Inl TypeError"
  using load_results(1) [of b st] load_results(3) [of b st]
  by (auto simp: p2p_block_def ai_block_def)

text \<open>\<open>initialize\<close> written with projections.\<close>

lemma initialize_unfold:
  "initialize b st =
     (if initialized (managers st) then (Inr (), st)
      else if isl (fst (p2p_block b (with_backend_dir b st)))
        then p2p_block b (with_backend_dir b st)
      else if isl (fst (load_transcription b (snd (p2p_block b (with_backend_dir b st)))))
        then load_transcription b (snd (p2p_block b (with_backend_dir b st)))
      else if isl (fst (ai_block b (snd (load_transcription b (snd (p2p_block b (with_backend_dir b st)))))))
        then ai_block b (snd (load_transcription b (snd (p2p_block b (with_backend_dir b st)))))
      else (Inr (), emit Initialized (set_managers (\<lambda>m. m\<lparr>initialized := True\<rparr>)
              (snd (ai_block b (snd (load_transcription b (snd (p2p_block b (with_backend_dir b st))))))))))"
  by (auto simp: initialize_def split: prod.splits sum.splits)

lemma initialize_again: "initialized (managers st) \<Longrightarrow> initialize b st = (Inr (), st)"
  by (simp add: initialize_def)

lemma initialize_frame:
  "isTranscribing (snd (initialize b st)) = isTranscribing st"
  "currentSession (snd (initialize b st)) = currentSession st"
  "timers (snd (initialize b st)) = timers st"
  "listeners (snd (initialize b st)) = listeners st"
  by (simp_all add: initialize_unfold step_defs block_frames)

lemma initialize_forwarders:
  "initialized (managers st) \<or> forwarders st = 0 \<Longrightarrow>
     forwarders (snd (initialize b st)) = forwarders st"
  by (auto simp: initialize_unfold step_defs block_frames load_transcription_forwarders)

lemma initialize_result:
  "fst (initialize b st) = Inr () \<or> fst (initialize b st) = Inl TypeError"
  using block_results(1) [of b "with_backend_dir b st"]
    load_results(2) [of b "snd (p2p_block b (with_backend_dir b st))"]
    block_results(2) [of b "snd (load_transcription b (snd (p2p_block b (with_backend_dir b st))))"]
  by (auto simp: initialize_unfold)

lemma initialize_returned:
  assumes "fst (initialize b st) = Inr ()"
  shows "initialized (managers (snd (initialize b st)))"
    and "emitted (snd (initialize b st)) =
           emitted st @ (if initialized (managers st) then [] else [Initialized])"
  using assms
  by (auto simp: initialize_unfold step_defs block_frames split: if_splits)

lemma initialize_rejected:
  assumes "fst (initialize b st) = Inl e"
  shows "e = TypeError"
    and "\<not> initialized (managers (snd (initialize b st)))"
    and "emitted (snd (initialize b st)) = emitted st"
  using assms initialize_result [of b st]
  by (auto simp: initialize_unfold step_defs block_frames split: if_splits)

lemma initialize_keeps_guard:
  "initialized (managers st) \<Longrightarrow> initialized (managers (snd (initialize b st)))"
  by (simp add: initialize_again)

section \<open>The steps of a start\<close>

lemma attach_drive_frame:
  "isTranscribing (snd (attach_drive b s st)) = isTranscribing st"
  "timers (snd (attach_drive b s st)) = timers st"
  "forwarders (snd (attach_drive b s st)) = forwarders st"
  "listeners (snd (attach_drive b s st)) = listeners st"
  "emitted (snd (attach_drive b s st)) = emitted st"
  "delivered (snd (attach_drive b s st)) = delivered st"
  "config (snd (attach_drive b s st)) = config st"
  "managers (snd (attach_drive b s st)) = managers st"
  by (simp_all add: attach_drive_def Let_def step_defs split: outcome.splits)

lemma attach_drive_returned:
  assumes "fst (attach_drive b s (st\<lparr>currentSession := Some s\<rparr>)) = Inr s1"
  shows "currentSession (snd (attach_drive b s (st\<lparr>currentSession := Some s\<rparr>))) = Some s1"
    and "session_id s1 = session_id s" and "startTime s1 = startTime s"
    and "status s1 = status s" and "endTime s1 = endTime s"
  using assms
  by (auto simp: attach_drive_def Let_def step_defs split: outcome.splits if_splits)

lemma attach_drive_rejected:
  assumes "fst (attach_drive b s (st\<lparr>currentSession := Some s\<rparr>)) = Inl e"
  shows "e = TypeError"
    and "currentSession (snd (attach_drive b s (st\<lparr>currentSession := Some s\<rparr>))) = Some s"
  using assms
  by (auto simp: attach_drive_def Let_def step_defs split: outcome.splits if_splits)

lemma prepare_session_unfold:
  "prepare_session b st =
     (if isl (fst (initialize b st)) then (Inl (projl (fst (initialize b st))), snd (initialize b st))
      else attach_drive b (new_session b)
             (snd (initialize b st)\<lparr>currentSession := Some (new_session b)\<rparr>))"
  by (auto simp: prepare_session_def Let_def split: prod.splits sum.splits)

lemma prepare_session_frame:
  "isTranscribing (snd (prepare_session b st)) = isTranscribing st"
  "timers (snd (prepare_session b st)) = timers st"
  "listeners (snd (prepare_session b st)) = listeners st"
  by (simp_all add: prepare_session_unfold attach_drive_frame initialize_frame)

lemma prepare_session_forwarders:
  "initialized (managers st) \<or> forwarders st = 0 \<Longrightarrow>
     forwarders (snd (prepare_session b st)) = forwarders st"
  by (simp add: prepare_session_unfold attach_drive_frame initialize_forwarders)

lemma prepare_session_managers:
  "managers (snd (prepare_session b st)) = managers (snd (initialize b st))"
  "emitted (snd (prepare_session b st)) = emitted (snd (initialize b st))"
  by (simp_all add: prepare_session_unfold attach_drive_frame)

lemma prepare_session_returned:
  assumes "fst (prepare_session b st) = Inr s"
  shows "fst (initialize b st) = Inr ()"
    and "currentSession (snd (prepare_session b st)) = Some s"
    and "session_id s = generateSessionId b" and "startTime s = clock b"
    and "status s = Active" and "endTime s = None"
proof -
  from assms have i: "\<not> isl (fst (initialize b st))"
    by (auto simp: prepare_session_unfold split: if_splits)
  then show "fst (initialize b st) = Inr ()"
    using initialize_result [of b st] by auto
  from assms i have a: "fst (attach_drive b (new_session b)
             (snd (initialize b st)\<lparr>currentSession := Some (new_session b)\<rparr>)) = Inr s"
    by (simp add: prepare_session_unfold)
  from attach_drive_returned [OF a] i
  show "currentSession (snd (prepare_session b st)) = Some s"
    and "session_id s = generateSessionId b" and "startTime s = clock b"
    and "status s = Active" and "endTime s = None"
    by (simp_all add: prepare_session_unfold new_session_def)
qed

lemma prepare_session_rejected:
  assumes "fst (prepare_session b st) = Inl e"
  shows "e = TypeError"
proof (cases "isl (fst (initialize b st))")
  case True
  with assms initialize_result [of b st] show ?thesis
    by (auto simp: prepare_session_unfold)
next
  case False
  with assms have "fst (attach_drive b (new_session b)
             (snd (initialize b st)\<lparr>currentSession := Some (new_session b)\<rparr>)) = Inl e"
    by (simp add: prepare_session_unfold)
  then show ?thesis by (rule attach_drive_rejected(1))
qed

text \<open>The ways a call of \<open>startTranscription\<close> on an idle instance can go.\<close>

lemma start_unprepared:
  assumes "\<not> isTranscribing st" "fst (prepare_session b st) = Inl e"
  shows "startTranscription b options st = (Inl e, snd (prepare_session b st))"
  using assms by (simp add: startTranscription_def case_prod_unfold)

lemma start_mock:
  assumes "\<not> isTranscribing st" "fst (prepare_session b st) = Inr s"
    "\<not> transcription (managers (snd (prepare_session b st)))"
  shows "fst (startTranscription b options st) = Inr s"
    and "isTranscribing (snd (startTranscription b options st))"
    and "timers (snd (startTranscription b options st)) =
           timers st @ [\<lparr>counter = 0, live = True\<rparr>]"
    and "emitted (snd (startTranscription b options st)) =
           emitted (snd (prepare_session b st)) @ [SessionStarted s]"
  using assms
  by (simp_all add: startTranscription_def case_prod_unfold step_defs
      startMockTranscription_def prepare_session_frame)

lemma start_backend_throws:
  assumes "\<not> isTranscribing st" "fst (prepare_session b st) = Inr s"
    "transcription (managers (snd (prepare_session b st)))"
    "backend_start b = Throws m"
  shows "fst (startTranscription b options st) = Inl (DelegationFailure m)"
    and "\<not> isTranscribing (snd (startTranscription b options st))"
    and "emitted (snd (startTranscription b options st)) = emitted (snd (prepare_session b st))"
    and "currentSession (snd (startTranscription b options st)) =
           currentSession (snd (prepare_session b st))"
    and "forwarders (snd (startTranscription b options st)) =
           forwarders (snd (prepare_session b st))"
  using assms
  by (simp_all add: startTranscription_def case_prod_unfold Let_def step_defs
      prepare_session_frame)

lemma start_backend_nullish:
  assumes "\<not> isTranscribing st" "fst (prepare_session b st) = Inr s"
    "transcription (managers (snd (prepare_session b st)))"
    "backend_start b = ThrowsNullish"
  shows "fst (startTranscription b options st) = Inl TypeError"
    and "\<not> isTranscribing (snd (startTranscription b options st))"
    and "emitted (snd (startTranscription b options st)) = emitted (snd (prepare_session b st))"
    and "currentSession (snd (startTranscription b options st)) =
           currentSession (snd (prepare_session b st))"
  using assms
  by (simp_all add: startTranscription_def case_prod_unfold Let_def step_defs
      prepare_session_frame)

lemma start_backend_ok:
  assumes "\<not> isTranscribing st" "fst (prepare_session b st) = Inr s"
    "transcription (managers (snd (prepare_session b st)))"
    "backend_start b = Returns u" "backend_on b = Returns v"
  shows "fst (startTranscription b options st) = Inr s"
    and "isTranscribing (snd (startTranscription b options st))"
    and "emitted (snd (startTranscription b options st)) =
           emitted (snd (prepare_session b st)) @ [SessionStarted s]"
    and "currentSession (snd (startTranscription b options st)) =
           currentSession (snd (prepare_session b st))"
    and "forwarders (snd (startTranscription b options st)) =
           forwarders (snd (prepare_session b st)) + 1"
  using assms
  by (simp_all add: startTranscription_def case_prod_unfold Let_def step_defs)

text \<open>Facts about every call of \<open>startTranscription\<close>.\<close>

lemma start_listeners:
  "listeners (snd (startTranscription b options st)) = listeners st"
  by (simp add: startTranscription_def case_prod_unfold Let_def prepare_session_frame
      step_defs startMockTranscription_def split: outcome.splits sum.splits)

lemma start_managers:
  "managers (snd (startTranscription b options st)) =
     (if isTranscribing st then managers st else managers (snd (initialize b st)))"
  by (simp add: startTranscription_def case_prod_unfold Let_def prepare_session_managers
      step_defs startMockTranscription_def split: outcome.splits sum.splits)

lemma start_returned:
  assumes "fst (startTranscription b options st) = Inr s"
  shows "\<not> isTranscribing st" and "fst (prepare_session b st) = Inr s"
    and "isTranscribing (snd (startTranscription b options st))"
    and "initialized (managers (snd (startTranscription b options st)))"
proof -
  show i: "\<not> isTranscribing st"
    using assms by (auto simp: startTranscription_def)
  show p: "fst (prepare_session b st) = Inr s"
    using assms i
    by (auto simp: startTranscription_def case_prod_unfold Let_def
        split: sum.splits outcome.splits if_splits)
  show "isTranscribing (snd (startTranscription b options st))"
    using assms i
    by (auto simp: startTranscription_def case_prod_unfold Let_def step_defs
        startMockTranscription_def split: sum.splits outcome.splits if_splits)
  show "initialized (managers (snd (startTranscription b options st)))"
    using i initialize_returned(1) [OF prepare_session_returned(1) [OF p]]
    by (simp add: start_managers)
qed


lemma start_forwarders:
  assumes "initialized (managers st) \<or> forwarders st = 0"
  shows "forwarders (snd (startTranscription b options st)) =
     forwarders st +
     (if \<not> isl (fst (startTranscription b options st)) \<and>
         transcription (managers (snd (startTranscription b options st)))
      then 1 else 0)"
  using assms
  by (simp add: startTranscription_def case_prod_unfold Let_def prepare_session_frame
      prepare_session_forwarders step_defs startMockTranscription_def
      split: outcome.splits sum.splits)

section \<open>Initialization\<close>

lemma fresh_fields:
  "\<not> isTranscribing (fresh cfg)" "\<not> initialized (managers (fresh cfg))"
  "\<not> transcription (managers (fresh cfg))" "\<not> ai (managers (fresh cfg))"
  "\<not> hyperdrive (managers (fresh cfg))" "\<not> session (managers (fresh cfg))"
  "config (fresh cfg) = cfg" "emitted (fresh cfg) = []" "forwarders (fresh cfg) = 0"
  "timers (fresh cfg) = []" "currentSession (fresh cfg) = None" "calls (fresh cfg) = []"
  "listeners (fresh cfg) = []" "delivered (fresh cfg) = []"
  by (simp_all add: fresh_def)

lemma load_p2p_handles:
  "hyperdrive (managers (snd (load_p2p b st))) =
     (hyperdrive (managers st) \<or>
      is_str (get (config st) ''backendPath'') \<and> require_hyperdrive b = Returns () \<and>
      require_sessiondrive b = Returns () \<and> new_hyperdrive b = Returns ())"
  "session (managers (snd (load_p2p b st))) =
     (session (managers st) \<or>
      is_str (get (config st) ''backendPath'') \<and> require_hyperdrive b = Returns () \<and>
      require_sessiondrive b = Returns () \<and> new_hyperdrive b = Returns () \<and>
      new_sessiondrive b = Returns ())"
  by (simp_all add: load_p2p_def Let_def step_defs split: outcome.splits)

lemma load_transcription_handle:
  "transcription (managers (snd (load_transcription b st))) =
     (transcription (managers st) \<or>
      is_str (get (config st) ''backendPath'') \<and>
      require_transcription b = Returns () \<and> new_transcription b = Returns ())"
  by (simp add: load_transcription_def Let_def step_defs split: outcome.splits)

lemma load_ai_handle:
  "ai (managers (snd (load_ai b st))) =
     (ai (managers st) \<or>
      is_str (get (config st) ''backendPath'') \<and>
      require_ai b = Returns () \<and> new_ai b = Returns ())"
  by (simp add: load_ai_def Let_def step_defs split: outcome.splits)

lemma load_p2p_calls:
  "x \<in> set (calls st) \<Longrightarrow> x \<in> set (calls (snd (load_p2p b st)))"
  by (simp add: load_p2p_def Let_def step_defs split: outcome.splits)

lemma load_transcription_calls:
  "is_str (get (config st) ''backendPath'') \<Longrightarrow>
     Require ''src/electron/TranscriptionManager'' \<in> set (calls (snd (load_transcription b st)))"
  "x \<in> set (calls st) \<Longrightarrow> x \<in> set (calls (snd (load_transcription b st)))"
  by (simp_all add: load_transcription_def Let_def step_defs split: outcome.splits)

lemma load_ai_calls:
  "is_str (get (config st) ''backendPath'') \<Longrightarrow>
     Require ''src/electron/ai/AIProviderManager'' \<in> set (calls (snd (load_ai b st)))"
  "x \<in> set (calls st) \<Longrightarrow> x \<in> set (calls (snd (load_ai b st)))"
  by (simp_all add: load_ai_def Let_def step_defs split: outcome.splits)

text \<open>When no loading step rejects with \<open>null\<close> or \<open>undefined\<close>, all three blocks run.\<close>

lemma initialize_runs_all:
  assumes "\<not> initialized (managers st)"
    and "ThrowsNullish \<notin>
           {require_hyperdrive b, require_sessiondrive b, new_hyperdrive b, new_sessiondrive b,
            hyperdrive_initialize b, require_transcription b, new_transcription b,
            require_ai b, new_ai b, ai_configure b}"
  shows "initialize b st =
     (Inr (), emit Initialized (set_managers (\<lambda>m. m\<lparr>initialized := True\<rparr>)
        (snd (ai_block b (snd (load_transcription b (snd (p2p_block b (with_backend_dir b st)))))))))"
proof -
  have "fst (p2p_block b s) = Inr ()" for s
    using assms(2) by (auto simp: p2p_block_def intro: load_p2p_returns)
  moreover have "fst (load_transcription b s) = Inr ()" for s
    using assms(2) by (auto intro: load_transcription_returns)
  moreover have "fst (ai_block b s) = Inr ()" for s
    using assms(2) by (auto simp: ai_block_def intro: load_ai_returns)
  ultimately show ?thesis using assms(1) by (simp add: initialize_unfold)
qed

lemma initialize_returns:
  assumes "ThrowsNullish \<notin>
           {require_hyperdrive b, require_sessiondrive b, new_hyperdrive b, new_sessiondrive b,
            hyperdrive_initialize b, require_transcription b, new_transcription b,
            require_ai b, new_ai b, ai_configure b}"
  shows "fst (initialize b st) = Inr ()"
  using initialize_runs_all [OF _ assms, of st] by (cases "initialized (managers st)")
    (simp_all add: initialize_again)

lemma initialize_handles:
  assumes "\<not> initialized (managers st)"
    and "ThrowsNullish \<notin>
           {require_hyperdrive b, require_sessiondrive b, new_hyperdrive b, new_sessiondrive b,
            hyperdrive_initialize b, require_transcription b, new_transcription b,
            require_ai b, new_ai b, ai_configure b}"
  shows "hyperdrive (managers (snd (initialize b st))) =
           (hyperdrive (managers st) \<or>
            truthy (get (config st) ''p2p'') \<and> is_str (backend_dir b st) \<and>
            require_hyperdrive b = Returns () \<and> require_sessiondrive b = Returns () \<and>
            new_hyperdrive b = Returns ())"
    and "session (managers (snd (initialize b st))) =
           (session (managers st) \<or>
            truthy (get (config st) ''p2p'') \<and> is_str (backend_dir b st) \<and>
            require_hyperdrive b = Returns () \<and> require_sessiondrive b = Returns () \<and>
            new_hyperdrive b = Returns () \<and> new_sessiondrive b = Returns ())"
    and "transcription (managers (snd (initialize b st))) =
           (transcription (managers st) \<or>
            is_str (backend_dir b st) \<and>
            require_transcription b = Returns () \<and> new_transcription b = Returns ())"
    and "ai (managers (snd (initialize b st))) =
           (ai (managers st) \<or>
            truthy (get (config st) ''ai'') \<and> get (config st) ''ai'' \<noteq> JStr ''local'' \<and>
            is_str (backend_dir b st) \<and>
            require_ai b = Returns () \<and> new_ai b = Returns ())"
  by (auto simp: initialize_runs_all [OF assms] step_defs block_frames
      p2p_block_def ai_block_def load_p2p_frame load_ai_frame load_p2p_handles
      load_transcription_handle load_ai_handle with_backend_dir_config)

lemma initialize_attempts:
  assumes "\<not> initialized (managers st)"
    and "ThrowsNullish \<notin>
           {require_hyperdrive b, require_sessiondrive b, new_hyperdrive b, new_sessiondrive b,
            hyperdrive_initialize b, require_transcription b, new_transcription b,
            require_ai b, new_ai b, ai_configure b}"
    and "is_str (backend_dir b st)"
  shows "Require ''src/electron/TranscriptionManager'' \<in> set (calls (snd (initialize b st)))"
    and "truthy (get (config st) ''ai'') \<Longrightarrow> get (config st) ''ai'' \<noteq> JStr ''local'' \<Longrightarrow>
         Require ''src/electron/ai/AIProviderManager'' \<in> set (calls (snd (initialize b st)))"
  using assms(3)
  by (auto simp: initialize_runs_all [OF assms(1,2)] step_defs block_frames
      p2p_block_def ai_block_def load_p2p_frame load_ai_frame load_transcription_calls
      load_ai_calls with_backend_dir_config)

lemma p2p_config_get:
  "get p2p_config ''backendPath'' = JNull"
  "get p2p_config ''p2p'' = JBool True"
  "get p2p_config ''ai'' = JStr ''openai''"
  "get p2p_config ''storagePath'' = JStr ''./sessions''"
  "get p2p_config ''apiKeys'' = JObj [(''openai'', JStr ''sk-test'')]"
  by (simp_all add: p2p_config_def get_def)

lemma p2p_config_constructed:
  "LucidTalk (Some [(''privacy'', JStr ''hybrid''), (''p2p'', JBool True), (''ai'', JStr ''openai''),
                    (''apiKeys'', JObj [(''openai'', JStr ''sk-test'')])]) = Inr (fresh p2p_config)"
  by (simp add: LucidTalk_def spread_def defaults_def validateConfig_def get_def p2p_config_def)

lemma broken_drive_fields:
  "sdk_parent broken_drive = ''/app''"
  "require_hyperdrive broken_drive = Returns ()"
  "require_sessiondrive broken_drive = Returns ()"
  "new_hyperdrive broken_drive = Throws ''native addon missing''"
  "new_sessiondrive broken_drive = Returns ()"
  "hyperdrive_initialize broken_drive = Returns ()"
  "require_transcription broken_drive = Returns ()"
  "new_transcription broken_drive = Returns ()"
  "require_ai broken_drive = Returns ()"
  "new_ai broken_drive = Returns ()"
  "ai_configure broken_drive = Returns ()"
  by (simp_all add: broken_drive_def installed_def)

lemma silent_reject_fields:
  "sdk_parent silent_reject = ''/app''"
  "require_hyperdrive silent_reject = Returns ()"
  "require_sessiondrive silent_reject = Returns ()"
  "new_hyperdrive silent_reject = Returns ()"
  "new_sessiondrive silent_reject = Returns ()"
  "hyperdrive_initialize silent_reject = ThrowsNullish"
  "require_transcription silent_reject = Returns ()"
  "new_transcription silent_reject = Returns ()"
  by (simp_all add: silent_reject_def installed_def)

lemma load_p2p_new_hyperdrive_throws:
  assumes "is_str (get (config st) ''backendPath'')"
    "require_hyperdrive b = Returns ()" "require_sessiondrive b = Returns ()"
    "new_hyperdrive b = Throws m"
  shows "calls (snd (load_p2p b st)) =
           calls st @ [Require ''backend/HyperdriveManager'',
                       Require ''backend/SessionDriveManager'', NewHyperdriveManager]"
    and "managers (snd (load_p2p b st)) = managers st"
  using assms by (simp_all add: load_p2p_def Let_def step_defs)

lemma load_p2p_initialize_rejects:
  assumes "is_str (get (config st) ''backendPath'')"
    "require_hyperdrive b = Returns ()" "require_sessiondrive b = Returns ()"
    "new_hyperdrive b = Returns ()" "new_sessiondrive b = Returns ()"
    "hyperdrive_initialize b = ThrowsNullish"
  shows "fst (load_p2p b st) = Inl TypeError"
    and "calls (snd (load_p2p b st)) =
           calls st @ [Require ''backend/HyperdriveManager'',
                       Require ''backend/SessionDriveManager'', NewHyperdriveManager,
                       NewSessionDriveManager
                         [(''storagePath'', get (config st) ''storagePath''),
                          (''shareMode'', JBool True), (''verbose'', JBool False)],
                       HyperdriveInitialize]"
    and "managers (snd (load_p2p b st)) = (managers st)\<lparr>hyperdrive := True, session := True\<rparr>"
  using assms by (simp_all add: load_p2p_def Let_def step_defs)

lemma load_transcription_calls_eq:
  "calls (snd (load_transcription b st)) =
     calls st @
     (if is_str (get (config st) ''backendPath'')
      then Require ''src/electron/TranscriptionManager'' #
           (case require_transcription b of
              Returns u \<Rightarrow> [NewTranscriptionManager] | Throws m \<Rightarrow> [] | ThrowsNullish \<Rightarrow> [])
      else [])"
  by (simp add: load_transcription_def Let_def step_defs split: outcome.splits)

lemma load_ai_calls_eq:
  "calls (snd (load_ai b st)) =
     calls st @
     (if is_str (get (config st) ''backendPath'')
      then Require ''src/electron/ai/AIProviderManager'' #
           (case require_ai b of
              Returns u \<Rightarrow>
                NewAIProviderManager #
                (case new_ai b of
                   Returns u \<Rightarrow>
                     [AIConfigure [(''provider'', get (config st) ''ai''),
                                   (''apiKeys'', get (config st) ''apiKeys'')]]
                 | Throws m \<Rightarrow> [] | ThrowsNullish \<Rightarrow> [])
            | Throws m \<Rightarrow> [] | ThrowsNullish \<Rightarrow> [])
      else [])"
  by (simp add: load_ai_def Let_def step_defs split: outcome.splits)

lemma p2p_config_dir:
  "get (config (with_backend_dir b (fresh p2p_config))) ''backendPath'' = JStr (sdk_parent b)"
  "get (config (with_backend_dir b (fresh p2p_config))) ''p2p'' = JBool True"
  "get (config (with_backend_dir b (fresh p2p_config))) ''ai'' = JStr ''openai''"
  "get (config (with_backend_dir b (fresh p2p_config))) ''apiKeys'' =
     JObj [(''openai'', JStr ''sk-test'')]"
  "get (config (with_backend_dir b (fresh p2p_config))) ''storagePath'' = JStr ''./sessions''"
  by (simp_all add: with_backend_dir_config backend_dir_def js_or_def fresh_fields p2p_config_get)

text \<open>
  Claim C2, as stated: during \<open>initialize\<close> a failure to construct or initialize one of
  the four managers is caught, leaves only that manager's handle absent and never prevents
  the construction attempts of the remaining managers, and \<open>initialize\<close> still completes
  and emits \<open>initialized\<close>. Two runs on an instance created with P2P and a provider show
  otherwise. The drive manager and the session manager are constructed inside one \<open>try\<close>:
  when the constructor of the drive manager throws, the constructor of the session manager
  is never called, although it would have returned, and the session handle is absent too.
  And when the drive manager's \<open>initialize\<close> rejects without a value, the \<open>catch\<close> reads
  \<open>error.message\<close> of \<open>undefined\<close>: \<open>initialize\<close> itself rejects with a \<open>TypeError\<close>, the
  transcription manager is never loaded, the guard is not set and \<open>initialized\<close> is not
  emitted.
\<close>

theorem C2_counterexample:
  "LucidTalk (Some [(''privacy'', JStr ''hybrid''), (''p2p'', JBool True), (''ai'', JStr ''openai''),
                    (''apiKeys'', JObj [(''openai'', JStr ''sk-test'')])]) = Inr (fresh p2p_config) \<and>
   new_hyperdrive broken_drive = Throws ''native addon missing'' \<and>
   new_sessiondrive broken_drive = Returns () \<and>
   calls (snd (initialize broken_drive (fresh p2p_config))) =
     [Require ''backend/HyperdriveManager'', Require ''backend/SessionDriveManager'',
      NewHyperdriveManager,
      Require ''src/electron/TranscriptionManager'', NewTranscriptionManager,
      Require ''src/electron/ai/AIProviderManager'', NewAIProviderManager,
      AIConfigure [(''provider'', JStr ''openai''),
                   (''apiKeys'', JObj [(''openai'', JStr ''sk-test'')])]] \<and>
   \<not> session (managers (snd (initialize broken_drive (fresh p2p_config)))) \<and>
   hyperdrive_initialize silent_reject = ThrowsNullish \<and>
   initialize silent_reject (fresh p2p_config) =
     (Inl TypeError, snd (initialize silent_reject (fresh p2p_config))) \<and>
   calls (snd (initialize silent_reject (fresh p2p_config))) =
     [Require ''backend/HyperdriveManager'', Require ''backend/SessionDriveManager'',
      NewHyperdriveManager,
      NewSessionDriveManager [(''storagePath'', JStr ''./sessions''),
                              (''shareMode'', JBool True), (''verbose'', JBool False)],
      HyperdriveInitialize] \<and>
   \<not> transcription (managers (snd (initialize silent_reject (fresh p2p_config)))) \<and>
   \<not> initialized (managers (snd (initialize silent_reject (fresh p2p_config)))) \<and>
   emitted (snd (initialize silent_reject (fresh p2p_config))) = []"
proof -
  let ?d = "with_backend_dir broken_drive (fresh p2p_config)"
  have n: "ThrowsNullish \<notin>
           {require_hyperdrive broken_drive, require_sessiondrive broken_drive,
            new_hyperdrive broken_drive, new_sessiondrive broken_drive,
            hyperdrive_initialize broken_drive, require_transcription broken_drive,
            new_transcription broken_drive, require_ai broken_drive, new_ai broken_drive,
            ai_configure broken_drive}"
    by (simp add: broken_drive_fields)
  have h: "\<not> initialized (managers (fresh p2p_config))" by (simp add: fresh_fields)
  have p: "calls (snd (p2p_block broken_drive ?d)) =
             [Require ''backend/HyperdriveManager'', Require ''backend/SessionDriveManager'',
              NewHyperdriveManager]"
      "managers (snd (p2p_block broken_drive ?d)) = managers (fresh p2p_config)"
    using load_p2p_new_hyperdrive_throws [of ?d broken_drive "''native addon missing''"]
    by (simp_all add: p2p_block_def p2p_config_dir broken_drive_fields
        with_backend_dir_frame fresh_fields)
  have a: "calls (snd (initialize broken_drive (fresh p2p_config))) =
     [Require ''backend/HyperdriveManager'', Require ''backend/SessionDriveManager'',
      NewHyperdriveManager,
      Require ''src/electron/TranscriptionManager'', NewTranscriptionManager,
      Require ''src/electron/ai/AIProviderManager'', NewAIProviderManager,
      AIConfigure [(''provider'', JStr ''openai''),
                   (''apiKeys'', JObj [(''openai'', JStr ''sk-test'')])]]"
    by (simp add: initialize_runs_all [OF h n] step_defs ai_block_def load_ai_calls_eq
        load_transcription_calls_eq load_transcription_frame p2p_block_frame p
        p2p_config_dir broken_drive_fields)
  have b: "\<not> session (managers (snd (initialize broken_drive (fresh p2p_config))))"
    using initialize_handles(2) [OF h n] by (simp add: fresh_fields broken_drive_fields)
  let ?e = "with_backend_dir silent_reject (fresh p2p_config)"
  have q: "fst (p2p_block silent_reject ?e) = Inl TypeError"
      "calls (snd (p2p_block silent_reject ?e)) =
         [Require ''backend/HyperdriveManager'', Require ''backend/SessionDriveManager'',
          NewHyperdriveManager,
          NewSessionDriveManager [(''storagePath'', JStr ''./sessions''),
                                  (''shareMode'', JBool True), (''verbose'', JBool False)],
          HyperdriveInitialize]"
    using load_p2p_initialize_rejects [of ?e silent_reject]
    by (simp_all add: p2p_block_def p2p_config_dir silent_reject_fields
        with_backend_dir_frame fresh_fields)
  have i: "initialize silent_reject (fresh p2p_config) = p2p_block silent_reject ?e"
    using h q(1) by (simp add: initialize_unfold)
  have c: "initialize silent_reject (fresh p2p_config) =
     (Inl TypeError, snd (initialize silent_reject (fresh p2p_config)))"
    using q(1) by (simp add: i prod_eq_iff)
  have d: "\<not> transcription (managers (snd (initialize silent_reject (fresh p2p_config))))"
    "\<not> initialized (managers (snd (initialize silent_reject (fresh p2p_config))))"
    "emitted (snd (initialize silent_reject (fresh p2p_config))) = []"
    by (simp_all add: i p2p_block_frame with_backend_dir_frame fresh_fields)
  show ?thesis
    using a b c d q(2) by (simp add: i p2p_config_constructed broken_drive_fields silent_reject_fields)
qed

text \<open>
  Claim C2, amended: during \<open>initialize\<close> on an instance whose guard is not set yet, a
  failure to load, construct, initialize or configure a backend manager that throws an
  \<open>Error\<close> (any value but \<open>null\<close> and \<open>undefined\<close>) is caught; the call then completes,
  sets its guard and emits \<open>initialized\<close> once. The guards are per block: the P2P block (both modules are loaded,
  the drive manager and then the session manager are constructed, the drive manager is
  initialized), the transcription block and the AI block. A failure in one block never
  prevents the attempts of the later blocks: the transcription module is always loaded,
  and the transcription handle is present afterwards exactly when its own load and
  construction succeed; the AI module is loaded whenever a provider other than \<open>local\<close> is
  configured, and the AI handle is present afterwards exactly when its own load and
  construction succeed. Inside the P2P block a failing step ends the block: the drive
  handle is present afterwards exactly when P2P is enabled, both modules load and the
  drive manager's constructor returns, and the session handle exactly when, in addition,
  its own constructor returns. (The attempts need the backend path to be a string; a
  handle present before the call stays.)
\<close>

theorem C2_guarded_blocks:
  assumes "\<not> initialized (managers st)"
    and "ThrowsNullish \<notin>
           {require_hyperdrive b, require_sessiondrive b, new_hyperdrive b, new_sessiondrive b,
            hyperdrive_initialize b, require_transcription b, new_transcription b,
            require_ai b, new_ai b, ai_configure b}"
  shows "fst (initialize b st) = Inr () \<and>
         initialized (managers (snd (initialize b st))) \<and>
         emitted (snd (initialize b st)) = emitted st @ [Initialized] \<and>
         hyperdrive (managers (snd (initialize b st))) =
           (hyperdrive (managers st) \<or>
            truthy (get (config st) ''p2p'') \<and> is_str (backend_dir b st) \<and>
            require_hyperdrive b = Returns () \<and> require_sessiondrive b = Returns () \<and>
            new_hyperdrive b = Returns ()) \<and>
         session (managers (snd (initialize b st))) =
           (session (managers st) \<or>
            truthy (get (config st) ''p2p'') \<and> is_str (backend_dir b st) \<and>
            require_hyperdrive b = Returns () \<and> require_sessiondrive b = Returns () \<and>
            new_hyperdrive b = Returns () \<and> new_sessiondrive b = Returns ()) \<and>
         (is_str (backend_dir b st) \<longrightarrow>
            Require ''src/electron/TranscriptionManager'' \<in> set (calls (snd (initialize b st)))) \<and>
         transcription (managers (snd (initialize b st))) =
           (transcription (managers st) \<or>
            is_str (backend_dir b st) \<and>
            require_transcription b = Returns () \<and> new_transcription b = Returns ()) \<and>
         (is_str (backend_dir b st) \<and> truthy (get (config st) ''ai'') \<and>
          get (config st) ''ai'' \<noteq> JStr ''local'' \<longrightarrow>
            Require ''src/electron/ai/AIProviderManager'' \<in> set (calls (snd (initialize b st)))) \<and>
         ai (managers (snd (initialize b st))) =
           (ai (managers st) \<or>
            truthy (get (config st) ''ai'') \<and> get (config st) ''ai'' \<noteq> JStr ''local'' \<and>
            is_str (backend_dir b st) \<and>
            require_ai b = Returns () \<and> new_ai b = Returns ())"
proof -
  have r: "fst (initialize b st) = Inr ()"
    using assms(2) by (rule initialize_returns)
  note initialize_returned [OF r] initialize_handles [OF assms]
    initialize_attempts [OF assms]
  with r assms(1) show ?thesis by simp
qed

theorem C2_guarded_blocks_witness:
  "\<not> initialized (managers (fresh p2p_config)) \<and>
   new_hyperdrive broken_drive = Throws ''native addon missing'' \<and>
   fst (initialize broken_drive (fresh p2p_config)) = Inr () \<and>
   initialized (managers (snd (initialize broken_drive (fresh p2p_config)))) \<and>
   emitted (snd (initialize broken_drive (fresh p2p_config))) = [Initialized] \<and>
   \<not> hyperdrive (managers (snd (initialize broken_drive (fresh p2p_config)))) \<and>
   \<not> session (managers (snd (initialize broken_drive (fresh p2p_config)))) \<and>
   Require ''src/electron/TranscriptionManager''
     \<in> set (calls (snd (initialize broken_drive (fresh p2p_config)))) \<and>
   transcription (managers (snd (initialize broken_drive (fresh p2p_config)))) \<and>
   Require ''src/electron/ai/AIProviderManager''
     \<in> set (calls (snd (initialize broken_drive (fresh p2p_config)))) \<and>
   ai (managers (snd (initialize broken_drive (fresh p2p_config))))"
proof -
  have h: "\<not> initialized (managers (fresh p2p_config))" by (simp add: fresh_fields)
  have n: "ThrowsNullish \<notin>
           {require_hyperdrive broken_drive, require_sessiondrive broken_drive,
            new_hyperdrive broken_drive, new_sessiondrive broken_drive,
            hyperdrive_initialize broken_drive, require_transcription broken_drive,
            new_transcription broken_drive, require_ai broken_drive, new_ai broken_drive,
            ai_configure broken_drive}"
    by (simp add: broken_drive_fields)
  have d: "backend_dir broken_drive (fresh p2p_config) = JStr ''/app''"
    by (simp add: backend_dir_def js_or_def fresh_fields p2p_config_get broken_drive_fields)
  from C2_guarded_blocks [OF h n] h show ?thesis
    by (simp add: d fresh_fields p2p_config_get broken_drive_fields)
qed

section \<open>Stopping and disposing\<close>

lemma end_session_frame:
  "\<not> isTranscribing (end_session b st)"
  "timers (end_session b st) = timers st"
  "forwarders (end_session b st) = forwarders st"
  "listeners (end_session b st) = listeners st"
  "managers (end_session b st) = managers st"
  "config (end_session b st) = config st"
  "currentSession (end_session b st) =
     map_option (\<lambda>s. s\<lparr>endTime := Some (clock b), status := Ended\<rparr>) (currentSession st)"
  by (simp_all add: end_session_def Let_def emit_def split: option.splits)

lemma stop_frame:
  "timers (snd (stopTranscription b st)) = timers st"
  "forwarders (snd (stopTranscription b st)) = forwarders st"
  "listeners (snd (stopTranscription b st)) = listeners st"
  "managers (snd (stopTranscription b st)) = managers st"
  "config (snd (stopTranscription b st)) = config st"
  by (simp_all add: stopTranscription_def Let_def end_session_frame record_call_def
      split: outcome.splits)

lemma stop_resolves:
  assumes "\<not> transcription (managers st) \<or> stopRecording b = Returns ()"
  shows "fst (stopTranscription b st) = Inr ()"
    and "\<not> isTranscribing (snd (stopTranscription b st))"
  using assms
  by (auto simp: stopTranscription_def Let_def end_session_frame split: outcome.splits)

lemma stop_session:
  assumes "isTranscribing st" "\<not> transcription (managers st) \<or> stopRecording b = Returns ()"
  shows "currentSession (snd (stopTranscription b st)) =
     map_option (\<lambda>s. s\<lparr>endTime := Some (clock b), status := Ended\<rparr>) (currentSession st)"
  using assms
  by (auto simp: stopTranscription_def Let_def end_session_frame record_call_def
      split: outcome.splits)

lemma dispose_frame:
  "timers (snd (dispose b st)) = timers st"
  "forwarders (snd (dispose b st)) = forwarders st"
  "managers (snd (dispose b st)) = managers st"
  "config (snd (dispose b st)) = config st"
  by (simp_all add: dispose_def removeAllListeners_def case_prod_unfold stop_frame
      split: sum.splits)

lemma dispose_resolves:
  assumes "\<not> transcription (managers st) \<or> stopRecording b = Returns ()"
  shows "fst (dispose b st) = Inr ()"
    and "\<not> isTranscribing (snd (dispose b st))"
  using stop_resolves [OF assms]
  by (auto simp: dispose_def removeAllListeners_def case_prod_unfold split: sum.splits)

lemma exec_snd:
  "snd (exec (Initialize b) st) = snd (initialize b st)"
  "snd (exec (Start b options) st) = snd (startTranscription b options st)"
  "snd (exec (Stop b) st) = snd (stopTranscription b st)"
  "snd (exec (Summarize b options) st) = snd (summarize b options st)"
  "snd (exec (Share b v) st) = snd (shareSession b v st)"
  "snd (exec (Connect b v) st) = snd (connectToSession b v st)"
  "snd (exec (Dispose b) st) = snd (dispose b st)"
  "snd (exec (On name cb) st) = on name cb st"
  "snd (exec (Tick now i) st) = mock_tick now i st"
  "snd (exec (RawEvent d) st) = backend_event d st"
  by (simp_all add: case_prod_unfold)

lemma exec_fst:
  "fst (exec (Start b options) st) = (\<not> isl (fst (startTranscription b options st)))"
  "fst (exec (Stop b) st) = (\<not> isl (fst (stopTranscription b st)))"
  "fst (exec (Dispose b) st) = (\<not> isl (fst (dispose b st)))"
  by (simp_all add: case_prod_unfold)

section \<open>Starting without P2P\<close>

lemma attach_drive_without:
  "\<not> session (managers st) \<Longrightarrow> attach_drive b s st = (Inr s, st)"
  by (simp add: attach_drive_def)

lemma prepare_session_without:
  assumes "fst (initialize b st) = Inr ()" "\<not> session (managers (snd (initialize b st)))"
  shows "fst (prepare_session b st) = Inr (new_session b)"
  using assms by (simp add: prepare_session_unfold attach_drive_without)

lemma prepare_session_reaches:
  assumes "fst (initialize b st) = Inr ()" "createSessionDrive b \<noteq> ThrowsNullish"
  shows "\<not> isl (fst (prepare_session b st))"
  using assms
  by (auto simp: prepare_session_unfold attach_drive_def Let_def split: outcome.splits)

lemma standalone_fields:
  "ThrowsNullish \<notin>
     {require_hyperdrive standalone, require_sessiondrive standalone, new_hyperdrive standalone,
      new_sessiondrive standalone, hyperdrive_initialize standalone,
      require_transcription standalone, new_transcription standalone,
      require_ai standalone, new_ai standalone, ai_configure standalone}"
  "require_transcription standalone \<noteq> Returns ()"
  by (simp_all add: standalone_def)

lemma installed_fields:
  "ThrowsNullish \<notin>
     {require_hyperdrive installed, require_sessiondrive installed, new_hyperdrive installed,
      new_sessiondrive installed, hyperdrive_initialize installed,
      require_transcription installed, new_transcription installed,
      require_ai installed, new_ai installed, ai_configure installed}"
  "sdk_parent installed = ''/app''"
  "require_transcription installed = Returns ()" "new_transcription installed = Returns ()"
  "backend_start installed = Returns ()" "backend_on installed = Returns ()"
  "stopRecording installed = Returns ()" "clock installed = 1700000000000"
  "createSessionDrive installed \<noteq> ThrowsNullish"
  by (simp_all add: installed_def)

lemma defaults_get:
  "get defaults ''backendPath'' = JNull" "get defaults ''p2p'' = JBool False"
  "get defaults ''ai'' = JStr ''local''"
  by (simp_all add: get_def defaults_def)

lemma backend_dir_defaults: "backend_dir b (fresh defaults) = JStr (sdk_parent b)"
  by (simp add: backend_dir_def js_or_def fresh_fields defaults_get)

text \<open>The standalone package, default configuration: mock mode.\<close>

lemma standalone_initialized:
  "fst (initialize standalone (fresh defaults)) = Inr ()"
  "initialized (managers (snd (initialize standalone (fresh defaults))))"
  "\<not> transcription (managers (snd (initialize standalone (fresh defaults))))"
  "\<not> session (managers (snd (initialize standalone (fresh defaults))))"
proof -
  show r: "fst (initialize standalone (fresh defaults)) = Inr ()"
    by (rule initialize_returns) (rule standalone_fields(1))
  show "initialized (managers (snd (initialize standalone (fresh defaults))))"
    by (rule initialize_returned(1) [OF r])
  have h: "\<not> initialized (managers (fresh defaults))" by (simp add: fresh_fields)
  show "\<not> transcription (managers (snd (initialize standalone (fresh defaults))))"
    using initialize_handles(3) [OF h standalone_fields(1)] standalone_fields(2)
    by (simp add: fresh_fields)
  show "\<not> session (managers (snd (initialize standalone (fresh defaults))))"
    using initialize_handles(2) [OF h standalone_fields(1)]
    by (simp add: fresh_fields defaults_get)
qed

lemma standalone_prepared:
  "fst (prepare_session standalone (fresh defaults)) = Inr (new_session standalone)"
  "\<not> transcription (managers (snd (prepare_session standalone (fresh defaults))))"
  by (simp_all add: prepare_session_without prepare_session_managers standalone_initialized)

lemma standalone_started:
  "fst (startTranscription standalone options (fresh defaults)) = Inr (new_session standalone)"
  "isTranscribing (snd (startTranscription standalone options (fresh defaults)))"
  "timers (snd (startTranscription standalone options (fresh defaults))) =
     [\<lparr>counter = 0, live = True\<rparr>]"
  "initialized (managers (snd (startTranscription standalone options (fresh defaults))))"
  "\<not> transcription (managers (snd (startTranscription standalone options (fresh defaults))))"
  "\<not> session (managers (snd (startTranscription standalone options (fresh defaults))))"
  using start_mock [OF fresh_fields(1) standalone_prepared(1) standalone_prepared(2), of options]
  by (simp_all add: fresh_fields start_managers standalone_initialized)

text \<open>An initialized instance without transcription and session handles: mock mode again.\<close>

lemma restart_mock:
  assumes "\<not> isTranscribing st" "initialized (managers st)"
    "\<not> transcription (managers st)" "\<not> session (managers st)"
  shows "fst (startTranscription b options st) = Inr (new_session b)"
    and "isTranscribing (snd (startTranscription b options st))"
    and "timers (snd (startTranscription b options st)) = timers st @ [\<lparr>counter = 0, live = True\<rparr>]"
    and "managers (snd (startTranscription b options st)) = managers st"
proof -
  from assms(2) have i: "initialize b st = (Inr (), st)" by (rule initialize_again)
  with assms(4) have p: "fst (prepare_session b st) = Inr (new_session b)"
    by (simp add: prepare_session_without)
  from i assms(3) have t: "\<not> transcription (managers (snd (prepare_session b st)))"
    by (simp add: prepare_session_managers)
  from start_mock [OF assms(1) p t, of options]
  show "fst (startTranscription b options st) = Inr (new_session b)"
    and "isTranscribing (snd (startTranscription b options st))"
    and "timers (snd (startTranscription b options st)) = timers st @ [\<lparr>counter = 0, live = True\<rparr>]"
    by simp_all
  show "managers (snd (startTranscription b options st)) = managers st"
    using assms(1) i by (simp add: start_managers)
qed

section \<open>A second start\<close>

text \<open>
  Claim C3: when \<open>startTranscription\<close> is called while a transcription is active, the call
  fails with \<open>AlreadyActive\<close> and the state of the instance, the session record and the
  active flag included, is exactly what it was.
\<close>

theorem C3_second_start_rejected:
  "isTranscribing st \<Longrightarrow> startTranscription b options st = (Inl AlreadyActive, st)"
  by (simp add: startTranscription_def)

theorem C3_second_start_rejected_witness:
  "isTranscribing (snd (startTranscription standalone [] (fresh defaults))) \<and>
   startTranscription installed [(''language'', JStr ''en'')]
       (snd (startTranscription standalone [] (fresh defaults))) =
     (Inl AlreadyActive, snd (startTranscription standalone [] (fresh defaults)))"
proof -
  have h: "isTranscribing (snd (startTranscription standalone [] (fresh defaults)))"
    by (rule standalone_started(2))
  from h C3_second_start_rejected [OF h] show ?thesis by simp
qed

section \<open>Mock mode\<close>

lemma mock_event_0:
  "mock_event 0 now =
     \<lparr>etext = JStr ''Hello everyone, welcome to the meeting'',
      timestamp = JNum (real_of_int now), confidence = JNum 0.95,
      isFinal = JBool True, speaker = JStr ''Speaker 1''\<rparr>"
  by (simp add: mock_event_def mockPhrases_def)

lemma mock_tick_active:
  assumes "i < length (timers s)" "live (timers s ! i)" "isTranscribing s"
  shows "emitted (mock_tick now i s) = emitted s @ [Transcription (mock_event (counter (timers s ! i)) now)]"
    and "timers (mock_tick now i s) = (timers s)[i := (timers s ! i)\<lparr>counter := counter (timers s ! i) + 1\<rparr>]"
    and "isTranscribing (mock_tick now i s)"
  using assms by (simp_all add: mock_tick_def Let_def emit_def)


text \<open>A firing that finds the active flag cleared emits nothing and clears the timer.\<close>

lemma mock_tick_inactive:
  assumes "i < length (timers s)" "live (timers s ! i)" "\<not> isTranscribing s"
  shows "emitted (mock_tick now i s) = emitted s"
    and "\<not> live (timers (mock_tick now i s) ! i)"
    and "emitted (mock_tick later i (mock_tick now i s)) = emitted s"
  using assms by (simp_all add: mock_tick_def)





text \<open>
  Claim C5 says that after \<open>stopTranscription\<close> or \<open>dispose\<close> has resolved the mock
  timer never emits another event. The timer is not cleared by either call; it cancels
  itself at its next firing if the active flag is then false. In mock mode, start, stop
  (or dispose) and start again before the first timer has fired: both calls have
  resolved and the flag was false in between, yet the next firing of the first timer
  finds the flag set by the second start, emits an event, and the instance is left with
  two live timers.
\<close>

theorem C5_timer_outlives_stop:
  "fst (exec (Stop standalone) (run [Start standalone []] (fresh defaults))) \<and>
   \<not> isActive (run [Start standalone [], Stop standalone] (fresh defaults)) \<and>
   emitted (run [Start standalone [], Stop standalone, Start standalone [], Tick 3000 0]
              (fresh defaults)) =
     emitted (run [Start standalone [], Stop standalone, Start standalone []] (fresh defaults)) @
     [Transcription
        \<lparr>etext = JStr ''Hello everyone, welcome to the meeting'',
         timestamp = JNum 3000, confidence = JNum 0.95,
         isFinal = JBool True, speaker = JStr ''Speaker 1''\<rparr>] \<and>
   timers (run [Start standalone [], Stop standalone, Start standalone [], Tick 3000 0]
             (fresh defaults)) =
     [\<lparr>counter = 1, live = True\<rparr>, \<lparr>counter = 0, live = True\<rparr>] \<and>
   fst (exec (Dispose standalone) (run [Start standalone []] (fresh defaults))) \<and>
   \<not> isActive (run [Start standalone [], Dispose standalone] (fresh defaults)) \<and>
   emitted (run [Start standalone [], Dispose standalone, Start standalone [], Tick 3000 0]
              (fresh defaults)) =
     emitted (run [Start standalone [], Dispose standalone, Start standalone []] (fresh defaults)) @
     [Transcription
        \<lparr>etext = JStr ''Hello everyone, welcome to the meeting'',
         timestamp = JNum 3000, confidence = JNum 0.95,
         isFinal = JBool True, speaker = JStr ''Speaker 1''\<rparr>]"
proof -
  let ?s1 = "snd (startTranscription standalone [] (fresh defaults))"
  let ?s2 = "snd (stopTranscription standalone ?s1)"
  let ?d2 = "snd (dispose standalone ?s1)"
  let ?s3 = "snd (startTranscription standalone [] ?s2)"
  let ?d3 = "snd (startTranscription standalone [] ?d2)"
  have stop: "fst (stopTranscription standalone ?s1) = Inr ()" "\<not> isTranscribing ?s2"
    by (simp_all add: stop_resolves standalone_started)
  have disp: "fst (dispose standalone ?s1) = Inr ()" "\<not> isTranscribing ?d2"
    by (simp_all add: dispose_resolves standalone_started)
  have s2: "initialized (managers ?s2)" "\<not> transcription (managers ?s2)"
    "\<not> session (managers ?s2)" "timers ?s2 = [\<lparr>counter = 0, live = True\<rparr>]"
    by (simp_all add: stop_frame standalone_started)
  have d2: "initialized (managers ?d2)" "\<not> transcription (managers ?d2)"
    "\<not> session (managers ?d2)" "timers ?d2 = [\<lparr>counter = 0, live = True\<rparr>]"
    by (simp_all add: dispose_frame standalone_started)
  have s3: "isTranscribing ?s3"
    "timers ?s3 = [\<lparr>counter = 0, live = True\<rparr>, \<lparr>counter = 0, live = True\<rparr>]"
    using restart_mock(2,3) [OF stop(2) s2(1-3), of standalone "[]"] s2(4) by simp_all
  have d3: "isTranscribing ?d3"
    "timers ?d3 = [\<lparr>counter = 0, live = True\<rparr>, \<lparr>counter = 0, live = True\<rparr>]"
    using restart_mock(2,3) [OF disp(2) d2(1-3), of standalone "[]"] d2(4) by simp_all
  have a: "emitted (mock_tick 3000 0 ?s3) = emitted ?s3 @ [Transcription (mock_event 0 3000)]"
    "timers (mock_tick 3000 0 ?s3) = [\<lparr>counter = 1, live = True\<rparr>, \<lparr>counter = 0, live = True\<rparr>]"
    using mock_tick_active(1,2) [of 0 ?s3 3000] s3 by simp_all
  have b: "emitted (mock_tick 3000 0 ?d3) = emitted ?d3 @ [Transcription (mock_event 0 3000)]"
    using mock_tick_active(1) [of 0 ?d3 3000] d3 by simp
  show ?thesis
    using stop disp a b by (simp add: exec_snd exec_fst isActive_def mock_event_0 del: exec.simps)
qed

section \<open>Summaries\<close>

text \<open>
  Claim C7: \<open>summarize\<close> without an AI handle fails with \<open>AIProviderNotConfigured\<close>; no
  signal is emitted, no backend call is attempted, the state is unchanged.
\<close>

theorem C7_summarize_without_ai:
  "\<not> ai (managers st) \<Longrightarrow>
     fst (summarize b options st) = Inl AIProviderNotConfigured \<and>
     emitted (snd (summarize b options st)) = emitted st \<and>
     calls (snd (summarize b options st)) = calls st \<and>
     snd (summarize b options st) = st"
  by (simp add: summarize_def)

theorem C7_summarize_without_ai_witness:
  "\<not> ai (managers (fresh defaults)) \<and>
   summarize installed [(''template'', JStr ''action-items'')] (fresh defaults) =
     (Inl AIProviderNotConfigured, fresh defaults)"
proof -
  have h: "\<not> ai (managers (fresh defaults))" by (simp add: fresh_def)
  from h C7_summarize_without_ai [OF h, of installed "[(''template'', JStr ''action-items'')]"]
  show ?thesis by (simp add: prod_eq_iff)
qed

section \<open>A failing backend start\<close>

text \<open>
  The hypotheses of the next two claims say that the call reaches the backend start: the
  instance is idle, \<open>initialize\<close> and the shared-drive step have not ended the call
  (\<open>prepare_session\<close> returns the session record), and a transcription handle exists.
\<close>

lemma failed_start:
  assumes "\<not> isTranscribing st" and "\<not> isl (fst (prepare_session b st))"
    and "transcription (managers (snd (prepare_session b st)))"
    and "backend_start b \<noteq> Returns ()"
  shows "isl (fst (startTranscription b options st))"
    and "backend_start b = Throws m \<Longrightarrow>
           fst (startTranscription b options st) = Inl (DelegationFailure m)"
    and "backend_start b = ThrowsNullish \<Longrightarrow>
           fst (startTranscription b options st) = Inl TypeError"
    and "\<not> isTranscribing (snd (startTranscription b options st))"
    and "emitted (snd (startTranscription b options st)) =
           emitted st @ (if initialized (managers st) then [] else [Initialized])"
    and "\<exists>s. currentSession (snd (startTranscription b options st)) = Some s \<and>
             session_id s = generateSessionId b \<and> startTime s = clock b \<and>
             status s = Active \<and> endTime s = None"
proof -
  from assms(2) obtain s where p: "fst (prepare_session b st) = Inr s"
    by (cases "fst (prepare_session b st)") auto
  note q = prepare_session_returned [OF p]
  have e: "emitted (snd (prepare_session b st)) =
             emitted st @ (if initialized (managers st) then [] else [Initialized])"
    using initialize_returned(2) [OF q(1)] by (simp add: prepare_session_managers)
  have c: "\<exists>s. currentSession (snd (prepare_session b st)) = Some s \<and>
             session_id s = generateSessionId b \<and> startTime s = clock b \<and>
             status s = Active \<and> endTime s = None"
    using q by simp
  show t: "backend_start b = Throws m \<Longrightarrow>
           fst (startTranscription b options st) = Inl (DelegationFailure m)" for m
    by (rule start_backend_throws(1) [OF assms(1) p assms(3)])
  show n: "backend_start b = ThrowsNullish \<Longrightarrow>
           fst (startTranscription b options st) = Inl TypeError"
    by (rule start_backend_nullish(1) [OF assms(1) p assms(3)])
  consider (thrown) m where "backend_start b = Throws m"
    | (nullish) "backend_start b = ThrowsNullish"
    using assms(4) by (cases "backend_start b") auto
  then have all:
    "isl (fst (startTranscription b options st)) \<and>
     \<not> isTranscribing (snd (startTranscription b options st)) \<and>
     emitted (snd (startTranscription b options st)) =
       emitted st @ (if initialized (managers st) then [] else [Initialized]) \<and>
     (\<exists>s. currentSession (snd (startTranscription b options st)) = Some s \<and>
          session_id s = generateSessionId b \<and> startTime s = clock b \<and>
          status s = Active \<and> endTime s = None)"
  proof cases
    case (thrown m)
    note r = start_backend_throws [OF assms(1) p assms(3) thrown, of options]
    from r e c show ?thesis by simp
  next
    case nullish
    note r = start_backend_nullish [OF assms(1) p assms(3) nullish, of options]
    from r e c show ?thesis by simp
  qed
  from all show "isl (fst (startTranscription b options st))" by simp
  from all show "\<not> isTranscribing (snd (startTranscription b options st))" by simp
  from all show "emitted (snd (startTranscription b options st)) =
           emitted st @ (if initialized (managers st) then [] else [Initialized])" by simp
  from all show "\<exists>s. currentSession (snd (startTranscription b options st)) = Some s \<and>
             session_id s = generateSessionId b \<and> startTime s = clock b \<and>
             status s = Active \<and> endTime s = None" by simp
qed

lemma backed_prepared:
  assumes "ThrowsNullish \<notin>
           {require_hyperdrive b, require_sessiondrive b, new_hyperdrive b, new_sessiondrive b,
            hyperdrive_initialize b, require_transcription b, new_transcription b,
            require_ai b, new_ai b, ai_configure b}"
    and "require_transcription b = Returns ()" "new_transcription b = Returns ()"
  shows "fst (prepare_session b (fresh defaults)) = Inr (new_session b)"
    and "transcription (managers (snd (prepare_session b (fresh defaults))))"
    and "\<not> session (managers (snd (prepare_session b (fresh defaults))))"
    and "initialized (managers (snd (prepare_session b (fresh defaults))))"
proof -
  have h: "\<not> initialized (managers (fresh defaults))" by (simp add: fresh_fields)
  have r: "fst (initialize b (fresh defaults)) = Inr ()"
    using assms(1) by (rule initialize_returns)
  have s: "\<not> session (managers (snd (initialize b (fresh defaults))))"
    using initialize_handles(2) [OF h assms(1)] by (simp add: fresh_fields defaults_get)
  show "fst (prepare_session b (fresh defaults)) = Inr (new_session b)"
    using r s by (rule prepare_session_without)
  show "transcription (managers (snd (prepare_session b (fresh defaults))))"
    using initialize_handles(3) [OF h assms(1)] assms(2,3)
    by (simp add: prepare_session_managers backend_dir_defaults)
  show "\<not> session (managers (snd (prepare_session b (fresh defaults))))"
    using s by (simp add: prepare_session_managers)
  show "initialized (managers (snd (prepare_session b (fresh defaults))))"
    using initialize_returned(1) [OF r] by (simp add: prepare_session_managers)
qed



text \<open>
  Claim C9: \<open>startTranscription\<close> stores the freshly created session record before it
  delegates to the backend, so when the delegated start fails and the error propagates,
  \<open>getCurrentSession\<close> returns the record of the failed call (its identifier and start
  time, status \<open>active\<close>, no \<open>endTime\<close>), whatever record was stored before.
\<close>

theorem C9_session_replaced_on_failure:
  assumes "\<not> isTranscribing st" and "\<not> isl (fst (prepare_session b st))"
    and "transcription (managers (snd (prepare_session b st)))"
    and "backend_start b \<noteq> Returns ()"
  shows "isl (fst (startTranscription b options st)) \<and>
         (\<forall>m. backend_start b = Throws m \<longrightarrow>
            fst (startTranscription b options st) = Inl (DelegationFailure m)) \<and>
         map_option session_id (getCurrentSession (snd (startTranscription b options st))) =
           Some (generateSessionId b) \<and>
         map_option startTime (getCurrentSession (snd (startTranscription b options st))) =
           Some (clock b) \<and>
         map_option status (getCurrentSession (snd (startTranscription b options st))) =
           Some Active \<and>
         map_option endTime (getCurrentSession (snd (startTranscription b options st))) =
           Some None"
proof -
  from failed_start(6) [OF assms, where options = options]
  obtain s where "currentSession (snd (startTranscription b options st)) = Some s"
    and "session_id s = generateSessionId b" and "startTime s = clock b"
    and "status s = Active" and "endTime s = None"
    by blast
  with failed_start(1) [OF assms, where options = options]
    failed_start(2) [OF assms, where options = options]
  show ?thesis by (simp add: getCurrentSession_def)
qed

theorem C9_session_replaced_on_failure_witness:
  "map_option startTime
     (getCurrentSession (run [Start installed [], Stop installed] (fresh defaults))) =
     Some 1700000000000 \<and>
   map_option status
     (getCurrentSession (run [Start installed [], Stop installed] (fresh defaults))) =
     Some Ended \<and>
   fst (startTranscription
          (installed\<lparr>clock := 1700000060000, backend_start := Throws ''device busy''\<rparr>) []
          (run [Start installed [], Stop installed] (fresh defaults))) =
     Inl (DelegationFailure ''device busy'') \<and>
   map_option startTime
     (getCurrentSession
        (snd (startTranscription
                (installed\<lparr>clock := 1700000060000, backend_start := Throws ''device busy''\<rparr>) []
                (run [Start installed [], Stop installed] (fresh defaults))))) =
     Some 1700000060000 \<and>
   map_option status
     (getCurrentSession
        (snd (startTranscription
                (installed\<lparr>clock := 1700000060000, backend_start := Throws ''device busy''\<rparr>) []
                (run [Start installed [], Stop installed] (fresh defaults))))) =
     Some Active"
proof -
  let ?b = "installed\<lparr>clock := 1700000060000, backend_start := Throws ''device busy''\<rparr>"
  let ?s1 = "snd (startTranscription installed [] (fresh defaults))"
  let ?s2 = "snd (stopTranscription installed ?s1)"
  note p = backed_prepared [OF installed_fields(1,3,4)]
  note ok = start_backend_ok [OF fresh_fields(1) p(1) p(2) installed_fields(5,6), of "[]"]
  note q = p(2-4) [unfolded prepare_session_managers]
  have c1: "currentSession ?s1 = Some (new_session installed)"
    using ok(4) prepare_session_returned(2) [OF p(1)] by simp
  have m1: "managers ?s1 = managers (snd (initialize installed (fresh defaults)))"
    by (simp add: start_managers fresh_fields)
  have h1: "\<not> isTranscribing ?s2"
    by (simp add: stop_resolves installed_fields)
  have m2: "managers ?s2 = managers (snd (initialize installed (fresh defaults)))"
    by (simp add: stop_frame m1)
  have i: "initialize ?b ?s2 = (Inr (), ?s2)"
    by (rule initialize_again) (simp add: m2 q)
  have h2: "\<not> isl (fst (prepare_session ?b ?s2))"
    using prepare_session_without [of ?b ?s2] by (simp add: i m2 q)
  have h3: "transcription (managers (snd (prepare_session ?b ?s2)))"
    by (simp add: prepare_session_managers i m2 q)
  have h4: "backend_start ?b \<noteq> Returns ()" by simp
  have old: "currentSession ?s2 =
      Some ((new_session installed)\<lparr>endTime := Some 1700000000000, status := Ended\<rparr>)"
    using stop_session [of ?s1 installed] ok(2)
    by (simp add: installed_fields c1)
  from C9_session_replaced_on_failure [OF h1 h2 h3 h4, of "[]"] old
  show ?thesis
    by (simp add: exec_snd getCurrentSession_def new_session_def installed_fields
        del: exec.simps)
qed

section \<open>Forwarding listeners accumulate\<close>

lemma emit_frame:
  "forwarders (emit sg st) = forwarders st"
  "managers (emit sg st) = managers st"
  "listeners (emit sg st) = listeners st"
  "emitted (emit sg st) = emitted st @ [sg]"
  "delivered (emit sg st) =
     delivered st @ map (\<lambda>l. (snd l, sg)) (filter (\<lambda>l. fst l = signal_name sg) (listeners st))"
  by (simp_all add: emit_def)

lemma emit_repeated:
  "forwarders ((emit sg ^^ n) st) = forwarders st"
  "managers ((emit sg ^^ n) st) = managers st"
  "listeners ((emit sg ^^ n) st) = listeners st"
  "emitted ((emit sg ^^ n) st) = emitted st @ replicate n sg"
  "delivered ((emit sg ^^ n) st) =
     delivered st @
     concat (replicate n
       (map (\<lambda>l. (snd l, sg)) (filter (\<lambda>l. fst l = signal_name sg) (listeners st))))"
proof -
  show "forwarders ((emit sg ^^ n) st) = forwarders st"
    by (induction n) (simp_all add: emit_frame)
  show "managers ((emit sg ^^ n) st) = managers st"
    by (induction n) (simp_all add: emit_frame)
  show l: "listeners ((emit sg ^^ n) st) = listeners st" for n
    by (induction n) (simp_all add: emit_frame)
  show "emitted ((emit sg ^^ n) st) = emitted st @ replicate n sg"
    by (induction n) (simp_all add: emit_frame replicate_append_same)
  show "delivered ((emit sg ^^ n) st) =
     delivered st @
     concat (replicate n
       (map (\<lambda>l. (snd l, sg)) (filter (\<lambda>l. fst l = signal_name sg) (listeners st))))"
  proof (induction n)
    case 0
    show ?case by simp
  next
    case (Suc n)
    let ?blk = "map (\<lambda>l. (snd l, sg)) (filter (\<lambda>l. fst l = signal_name sg) (listeners st))"
    have "concat (replicate n ?blk) @ ?blk = concat (replicate (Suc n) ?blk)"
      by (induction n) simp_all
    with Suc show ?case by (simp add: emit_frame l)
  qed
qed

lemma backend_event_frame:
  "forwarders (backend_event d st) = forwarders st"
  "managers (backend_event d st) = managers st"
  by (simp_all add: backend_event_def emit_repeated)

lemma summarize_frame:
  "forwarders (snd (summarize b options st)) = forwarders st"
  "managers (snd (summarize b options st)) = managers st"
  by (simp_all add: summarize_def getTranscriptText_def Let_def step_defs
      split: outcome.splits sum.splits prod.splits)

lemma share_frame:
  "forwarders (snd (shareSession b v st)) = forwarders st"
  "managers (snd (shareSession b v st)) = managers st"
  by (simp_all add: shareSession_def Let_def step_defs split: outcome.splits)

lemma connect_frame:
  "forwarders (snd (connectToSession b v st)) = forwarders st"
  "managers (snd (connectToSession b v st)) = managers st"
  by (simp_all add: connectToSession_def Let_def step_defs split: outcome.splits)

lemma mock_tick_frame:
  "forwarders (mock_tick now i st) = forwarders st"
  "managers (mock_tick now i st) = managers st"
  by (simp_all add: mock_tick_def Let_def emit_def)

text \<open>
  Listeners are registered only after \<open>initialize\<close> has returned, and the handle is
  replaced only while the guard is not set: in every state reached from a new instance
  the guard is set or the handle carries no listener.
\<close>

lemma start_keeps_guard:
  assumes "initialized (managers st) \<or> forwarders st = 0"
  shows "initialized (managers (snd (startTranscription b options st))) \<or>
         forwarders (snd (startTranscription b options st)) = 0"
proof (cases "initialized (managers st)")
  case True
  then show ?thesis by (simp add: start_managers initialize_again)
next
  case False
  with assms have z: "forwarders st = 0" by simp
  show ?thesis
  proof (cases "fst (startTranscription b options st)")
    case (Inr s)
    then show ?thesis by (simp add: start_returned(4))
  next
    case (Inl e)
    then show ?thesis using start_forwarders [OF assms, of b options] z by simp
  qed
qed

lemma exec_forwarders:
  assumes "initialized (managers st) \<or> forwarders st = 0"
  shows "forwarders (snd (exec x st)) =
     forwarders st +
     (if is_start x \<and> fst (exec x st) \<and> transcription (managers (snd (exec x st)))
      then 1 else 0)"
    and "initialized (managers (snd (exec x st))) \<or> forwarders (snd (exec x st)) = 0"
proof -
  show "forwarders (snd (exec x st)) =
     forwarders st +
     (if is_start x \<and> fst (exec x st) \<and> transcription (managers (snd (exec x st)))
      then 1 else 0)"
  proof (cases x)
    case (Start b options)
    then show ?thesis
      using start_forwarders [OF assms, of b options]
      by (simp add: exec_snd exec_fst del: exec.simps)
  next
    case (Initialize b)
    then show ?thesis
      using initialize_forwarders [OF assms, of b] by (simp add: exec_snd del: exec.simps)
  qed (simp_all add: exec_snd stop_frame dispose_frame summarize_frame
        share_frame connect_frame mock_tick_frame backend_event_frame on_def
        del: exec.simps)
  show "initialized (managers (snd (exec x st))) \<or> forwarders (snd (exec x st)) = 0"
  proof (cases x)
    case (Start b options)
    then show ?thesis
      using start_keeps_guard [OF assms, of b options] by (simp add: exec_snd del: exec.simps)
  next
    case (Initialize b)
    show ?thesis
    proof (cases "initialized (managers st)")
      case True
      then show ?thesis using Initialize by (simp add: exec_snd initialize_again del: exec.simps)
    next
      case False
      with assms have "forwarders st = 0" by simp
      then show ?thesis
        using Initialize initialize_forwarders [OF assms, of b]
        by (simp add: exec_snd del: exec.simps)
    qed
  qed (use assms in \<open>simp_all add: exec_snd stop_frame dispose_frame summarize_frame
        share_frame connect_frame mock_tick_frame backend_event_frame on_def
        del: exec.simps\<close>)
qed

lemma run_forwarders:
  assumes "initialized (managers st) \<or> forwarders st = 0"
  shows "forwarders (run ops st) = forwarders st + backed_starts ops st"
  using assms
proof (induction ops arbitrary: st)
  case Nil
  show ?case by simp
next
  case (Cons x xs)
  have "forwarders (run (x # xs) st) =
          forwarders (snd (exec x st)) + backed_starts xs (snd (exec x st))"
    using Cons.IH [OF exec_forwarders(2) [OF Cons.prems, of x]] by simp
  also have "\<dots> = forwarders st + backed_starts (x # xs) st"
    by (simp add: exec_forwarders(1) [OF Cons.prems, of x] del: exec.simps)
  finally show ?case .
qed

lemma backed_start_succeeds:
  assumes "\<not> isTranscribing st" "fst (prepare_session b st) = Inr s"
    "transcription (managers (snd (prepare_session b st)))"
    "backend_start b = Returns ()" "backend_on b = Returns ()"
  shows "fst (exec (Start b options) st)"
    and "transcription (managers (snd (exec (Start b options) st)))"
    and "isTranscribing (snd (exec (Start b options) st))"
    and "managers (snd (exec (Start b options) st)) = managers (snd (prepare_session b st))"
  using start_backend_ok(1,2) [OF assms, of options] assms(1,3)
  by (simp_all add: exec_snd exec_fst start_managers prepare_session_managers del: exec.simps)

text \<open>
  Claim C10: every \<open>startTranscription\<close> call that returns normally with a
  transcription handle present registers one more forwarding listener on the handle, and
  no step of any history (stop and \<open>dispose\<close> included) removes one. So after a history
  with \<open>n\<close> such starts the handle carries \<open>n\<close> forwarding listeners, a raw backend event
  is re-emitted \<open>n\<close> times, and each of the orchestrator's own \<open>transcription\<close> listeners
  is called \<open>n\<close> times.
\<close>

theorem C10_forwarders_accumulate:
  assumes "\<not> nullish d"
  shows "forwarders (run ops (fresh cfg)) = backed_starts ops (fresh cfg) \<and>
         emitted (backend_event d (run ops (fresh cfg))) =
           emitted (run ops (fresh cfg)) @
           replicate (backed_starts ops (fresh cfg)) (Transcription (forward_event d)) \<and>
         delivered (backend_event d (run ops (fresh cfg))) =
           delivered (run ops (fresh cfg)) @
           concat (replicate (backed_starts ops (fresh cfg))
             (map (\<lambda>l. (snd l, Transcription (forward_event d)))
                (filter (\<lambda>l. fst l = ''transcription'') (listeners (run ops (fresh cfg))))))"
proof -
  have n: "forwarders (run ops (fresh cfg)) = backed_starts ops (fresh cfg)"
    using run_forwarders [of "fresh cfg" ops] by (simp add: fresh_fields)
  show ?thesis
    using assms by (simp add: n backend_event_def emit_repeated)
qed

theorem C10_forwarders_accumulate_witness:
  "backed_starts [On ''transcription'' 7, Start installed [], Stop installed, Start installed []]
     (fresh defaults) = 2 \<and>
   emitted
     (backend_event
        (JObj [(''text'', JStr ''hello''), (''timestamp'', JNum 1700000001000),
               (''confidence'', JNum 0.9), (''isFinal'', JBool True), (''words'', JObj [])])
        (run [On ''transcription'' 7, Start installed [], Stop installed, Start installed []]
           (fresh defaults))) =
     emitted
       (run [On ''transcription'' 7, Start installed [], Stop installed, Start installed []]
          (fresh defaults)) @
     [Transcription \<lparr>etext = JStr ''hello'', timestamp = JNum 1700000001000,
        confidence = JNum 0.9, isFinal = JBool True, speaker = JUndefined\<rparr>,
      Transcription \<lparr>etext = JStr ''hello'', timestamp = JNum 1700000001000,
        confidence = JNum 0.9, isFinal = JBool True, speaker = JUndefined\<rparr>] \<and>
   delivered
     (backend_event
        (JObj [(''text'', JStr ''hello''), (''timestamp'', JNum 1700000001000),
               (''confidence'', JNum 0.9), (''isFinal'', JBool True), (''words'', JObj [])])
        (run [On ''transcription'' 7, Start installed [], Stop installed, Start installed []]
           (fresh defaults))) =
     delivered
       (run [On ''transcription'' 7, Start installed [], Stop installed, Start installed []]
          (fresh defaults)) @
     [(7, Transcription \<lparr>etext = JStr ''hello'', timestamp = JNum 1700000001000,
        confidence = JNum 0.9, isFinal = JBool True, speaker = JUndefined\<rparr>),
      (7, Transcription \<lparr>etext = JStr ''hello'', timestamp = JNum 1700000001000,
        confidence = JNum 0.9, isFinal = JBool True, speaker = JUndefined\<rparr>)]"
proof -
  let ?d = "JObj [(''text'', JStr ''hello''), (''timestamp'', JNum 1700000001000),
               (''confidence'', JNum 0.9), (''isFinal'', JBool True), (''words'', JObj [])]"
  let ?ops = "[On ''transcription'' 7, Start installed [], Stop installed, Start installed []]"
  let ?s0 = "on ''transcription'' 7 (fresh defaults)"
  let ?s1 = "snd (exec (Start installed []) ?s0)"
  let ?s2 = "snd (exec (Stop installed) ?s1)"
  let ?s3 = "snd (exec (Start installed []) ?s2)"
  have s0: "\<not> isTranscribing ?s0" "\<not> initialized (managers ?s0)"
    "\<not> transcription (managers ?s0)" "\<not> session (managers ?s0)" "config ?s0 = defaults"
    "listeners ?s0 = [(''transcription'', 7)]"
    by (simp_all add: on_def fresh_fields)
  have dir: "backend_dir installed ?s0 = JStr ''/app''"
    by (simp add: backend_dir_def js_or_def s0 defaults_get installed_fields)
  have r0: "fst (initialize installed ?s0) = Inr ()"
    by (rule initialize_returns) (rule installed_fields(1))
  have t0: "transcription (managers (snd (initialize installed ?s0)))"
    using initialize_handles(3) [OF s0(2) installed_fields(1)]
    by (simp add: dir installed_fields)
  have n0: "\<not> session (managers (snd (initialize installed ?s0)))"
    using initialize_handles(2) [OF s0(2) installed_fields(1)]
    by (simp add: s0 defaults_get)
  have i0: "initialized (managers (snd (initialize installed ?s0)))"
    by (rule initialize_returned(1) [OF r0])
  have p0: "fst (prepare_session installed ?s0) = Inr (new_session installed)"
    using r0 n0 by (rule prepare_session_without)
  have q0: "transcription (managers (snd (prepare_session installed ?s0)))"
    using t0 by (simp add: prepare_session_managers)
  note a = backed_start_succeeds [OF s0(1) p0 q0 installed_fields(5,6), of "[]"]
  have m1: "managers ?s1 = managers (snd (initialize installed ?s0))"
    using a(4) by (simp add: prepare_session_managers)
  have s2: "\<not> isTranscribing ?s2" "managers ?s2 = managers (snd (initialize installed ?s0))"
    by (simp_all add: exec_snd(3) stop_resolves stop_frame installed_fields m1
        del: exec.simps)
  have i2: "initialize installed ?s2 = (Inr (), ?s2)"
    by (rule initialize_again) (simp add: s2 i0 del: exec.simps)
  have p2: "fst (prepare_session installed ?s2) = Inr (new_session installed)"
    using prepare_session_without [of installed ?s2] by (simp add: i2 s2 n0 del: exec.simps)
  have q2: "transcription (managers (snd (prepare_session installed ?s2)))"
    by (simp add: prepare_session_managers i2 s2 t0 del: exec.simps)
  note b = backed_start_succeeds [OF s2(1) p2 q2 installed_fields(5,6), of "[]"]
  have n: "backed_starts ?ops (fresh defaults) = 2"
    using a(1,2) b(1,2) by (simp add: exec_snd(8) del: exec.simps)
  have l: "listeners (run ?ops (fresh defaults)) = [(''transcription'', 7)]"
    by (simp add: exec_snd start_listeners stop_frame s0 del: exec.simps)
  have e: "forward_event ?d =
      \<lparr>etext = JStr ''hello'', timestamp = JNum 1700000001000,
        confidence = JNum 0.9, isFinal = JBool True, speaker = JUndefined\<rparr>"
    by (simp add: forward_event_def get_def)
  have h: "\<not> nullish ?d" by simp
  from C10_forwarders_accumulate [OF h, of ?ops defaults] n l e
  show ?thesis by (simp add: numeral_2_eq_2 del: exec.simps run.simps backed_starts.simps)
qed

end
